theory Spec2Isabelle
  imports Complex_Main
begin

section \<open>Bayestar: grid evaluation of stellar parameters, after star\_exact.cpp\<close>

text \<open>
  Conventions of the embedding.

  \<^item> A C++ \<open>double\<close> (and \<open>floating_t\<close>) that holds a finite value is a HOL \<open>real\<close>:
    rounding, overflow and underflow are not modelled.
  \<^item> \<open>real\<close> has no infinity and no NaN. Wherever the source divides, the model tests the
    divisor: a zero divisor gives the fault \<open>NonFinite\<close> (IEEE arithmetic yields an infinity
    or a NaN there and the C++ goes on computing with it; the model stops following it).
    The same fault stands for the square root of a negative number.
  \<^item> Undefined behaviour of the C++ is a fault as well: the conversion to \<open>int\<close> of a value
    outside the range of \<open>int\<close>, signed overflow, and the dereference of the end iterator
    that \<open>std::min_element\<close> and \<open>std::max_element\<close> return on an empty range.
  \<^item> A fixed-size array \<open>double a[NBANDS]\<close> is a function from the band index to the
    value; the loops read it at indices below \<open>NBANDS\<close> only. \<open>NBANDS\<close> is a compile-time
    constant declared outside these sources, so it is a parameter here.
  \<^item> A \<open>cv::Mat\<close> access outside the matrix is the fault \<open>OutOfRange\<close>, and an OpenCV
    call that rejects its arguments (an empty or negative size) is \<open>CvException\<close>.
  \<^item> The collaborators whose code is elsewhere are parameters: \<open>get_A\<close> for
    \<open>TExtinctionModel::get_A\<close>, and records of methods for \<open>TStellarModel\<close>,
    \<open>TGalacticLOSModel\<close>, \<open>TEBVSmoothing\<close> and the methods of \<open>TImgStack\<close>.
\<close>

datatype fault = NonFinite | IntRange | EmptyRange | OutOfRange | CvException

text \<open>\<open>TStellarData::TMagnitudes\<close>, the fields that star\_exact.cpp reads:
  \<open>m\<close>, \<open>err\<close>, \<open>pi\<close> and \<open>pierr\<close>.\<close>

record TMagnitudes =
  obs_m :: "nat \<Rightarrow> real"
  obs_err :: "nat \<Rightarrow> real"
  obs_pi :: real
  obs_pierr :: real

text \<open>\<open>TSED\<close>: the array \<open>absmag[NBANDS]\<close>.\<close>

type_synonym TSED = "nat \<Rightarrow> real"

subsection \<open>Faults and loops that may fault\<close>

definition fdiv :: "real \<Rightarrow> real \<Rightarrow> fault + real" where
  "fdiv a b = (if b = 0 then Inl NonFinite else Inr (a / b))"

definition bind :: "fault + 'a \<Rightarrow> ('a \<Rightarrow> fault + 'b) \<Rightarrow> fault + 'b" where
  "bind r f = (case r of Inl e \<Rightarrow> Inl e | Inr x \<Rightarrow> f x)"

text \<open>A \<open>for\<close> loop over the given indices whose body may fault; the first fault ends it.\<close>

fun for_loop :: "'i list \<Rightarrow> ('i \<Rightarrow> 's \<Rightarrow> fault + 's) \<Rightarrow> 's \<Rightarrow> fault + 's" where
  "for_loop [] body s = Inr s"
| "for_loop (i # is) body s =
     (case body i s of Inl e \<Rightarrow> Inl e | Inr s' \<Rightarrow> for_loop is body s')"

subsection \<open>star\_covariance (lines 43--65)\<close>

text \<open>The body of the loop over the bands: \<open>ivar = 1. / (err[i] * err[i])\<close> and the three
  accumulators \<open>inv_sigma2\<close>, \<open>A_over_sigma2\<close>, \<open>A2_over_sigma2\<close>.\<close>

definition star_covariance_body ::
  "(real \<Rightarrow> nat \<Rightarrow> real) \<Rightarrow> real \<Rightarrow> TMagnitudes \<Rightarrow> nat \<Rightarrow> real \<times> real \<times> real
     \<Rightarrow> fault + real \<times> real \<times> real" where
  "star_covariance_body get_A RV mags_obs i acc =
     (case acc of (inv_sigma2, A_over_sigma2, A2_over_sigma2) \<Rightarrow>
        let A = get_A RV i in
        bind (fdiv 1 (obs_err mags_obs i * obs_err mags_obs i)) (\<lambda>ivar.
          Inr (inv_sigma2 + ivar, A_over_sigma2 + A * ivar, A2_over_sigma2 + A * A * ivar)))"

text \<open>The result is the triple \<open>(inv_cov_00, inv_cov_01, inv_cov_11)\<close> of the
  reference parameters.\<close>

definition star_covariance ::
  "nat \<Rightarrow> (real \<Rightarrow> nat \<Rightarrow> real) \<Rightarrow> TMagnitudes \<Rightarrow> real \<Rightarrow> fault + real \<times> real \<times> real" where
  "star_covariance NBANDS get_A mags_obs RV =
     for_loop [0..<NBANDS] (star_covariance_body get_A RV mags_obs) (0, 0, 0)"

subsection \<open>star\_max\_likelihood (lines 67--109)\<close>

text \<open>First loop: \<open>dm_over_sigma2\<close> and \<open>dm_A_over_sigma2\<close>.\<close>

definition ml_sums_body ::
  "(real \<Rightarrow> nat \<Rightarrow> real) \<Rightarrow> real \<Rightarrow> TSED \<Rightarrow> TMagnitudes \<Rightarrow> nat \<Rightarrow> real \<times> real
     \<Rightarrow> fault + real \<times> real" where
  "ml_sums_body get_A RV mags_model mags_obs i acc =
     (case acc of (dm_over_sigma2, dm_A_over_sigma2) \<Rightarrow>
        let A = get_A RV i in
        bind (fdiv 1 (obs_err mags_obs i * obs_err mags_obs i)) (\<lambda>ivar.
          let dm = obs_m mags_obs i - mags_model i in
          Inr (dm_over_sigma2 + dm * ivar, dm_A_over_sigma2 + dm * A * ivar)))"

definition ml_sums ::
  "nat \<Rightarrow> (real \<Rightarrow> nat \<Rightarrow> real) \<Rightarrow> real \<Rightarrow> TSED \<Rightarrow> TMagnitudes \<Rightarrow> fault + real \<times> real" where
  "ml_sums NBANDS get_A RV mags_model mags_obs =
     for_loop [0..<NBANDS] (ml_sums_body get_A RV mags_model mags_obs) (0, 0)"

text \<open>Last loop: the chi-square at the given \<open>(mu, E)\<close>.\<close>

definition chi2_body ::
  "(real \<Rightarrow> nat \<Rightarrow> real) \<Rightarrow> real \<Rightarrow> TSED \<Rightarrow> TMagnitudes \<Rightarrow> real \<Rightarrow> real \<Rightarrow> nat \<Rightarrow> real
     \<Rightarrow> fault + real" where
  "chi2_body get_A RV mags_model mags_obs mu E i chi2 =
     (let A = get_A RV i in
      bind (fdiv 1 (obs_err mags_obs i * obs_err mags_obs i)) (\<lambda>ivar.
        let dm = obs_m mags_obs i - mags_model i;
            delta = dm - E * A - mu
        in Inr (chi2 + delta * delta * ivar)))"

definition chi2_loop ::
  "nat \<Rightarrow> (real \<Rightarrow> nat \<Rightarrow> real) \<Rightarrow> real \<Rightarrow> TSED \<Rightarrow> TMagnitudes \<Rightarrow> real \<Rightarrow> real \<Rightarrow> fault + real" where
  "chi2_loop NBANDS get_A RV mags_model mags_obs mu E =
     for_loop [0..<NBANDS] (chi2_body get_A RV mags_model mags_obs mu E) 0"

text \<open>The result is the triple \<open>(mu, E, chi2)\<close> of the reference parameters.\<close>

definition star_max_likelihood ::
  "nat \<Rightarrow> (real \<Rightarrow> nat \<Rightarrow> real) \<Rightarrow> TSED \<Rightarrow> TMagnitudes \<Rightarrow> real \<Rightarrow> real \<Rightarrow> real \<Rightarrow> real
     \<Rightarrow> fault + real \<times> real \<times> real" where
  "star_max_likelihood NBANDS get_A mags_model mags_obs inv_cov_00 inv_cov_01 inv_cov_11 RV =
     bind (ml_sums NBANDS get_A RV mags_model mags_obs) (\<lambda>(dm_over_sigma2, dm_A_over_sigma2).
     bind (fdiv dm_over_sigma2 inv_cov_00) (\<lambda>mu_0.
     bind (fdiv dm_A_over_sigma2 inv_cov_11) (\<lambda>E_0.
     bind (fdiv inv_cov_01 inv_cov_00) (\<lambda>C_01.
     bind (fdiv inv_cov_01 inv_cov_11) (\<lambda>C_10.
     bind (fdiv 1 (1 - C_01 * C_10)) (\<lambda>C_det_inv.
       let mu = C_det_inv * (mu_0 - C_01 * E_0);
           E = C_det_inv * (E_0 - C_10 * mu_0)
       in bind (chi2_loop NBANDS get_A RV mags_model mags_obs mu E) (\<lambda>chi2.
            Inr (mu, E, chi2))))))))"

subsection \<open>Matrices and the grid\<close>

text \<open>\<open>cv::Mat\<close> with elements of type \<open>floating_t\<close>: the dimensions and the element
  at (row, column). Elements outside the dimensions are never read by the C++; in the
  model they are 0 in every matrix built here.\<close>

record Mat =
  rows :: nat
  cols :: nat
  at_rc :: "nat \<Rightarrow> nat \<Rightarrow> real"

text \<open>\<open>cv::Mat::zeros(r, c, CV_FLOATING_TYPE)\<close>.\<close>

definition zeros :: "nat \<Rightarrow> nat \<Rightarrow> Mat" where
  "zeros r c = \<lparr>rows = r, cols = c, at_rc = (\<lambda>i j. 0)\<rparr>"

text \<open>\<open>M.at<floating_t>(i, j) += v\<close> inside the matrix.\<close>

definition mat_add :: "Mat \<Rightarrow> nat \<Rightarrow> nat \<Rightarrow> real \<Rightarrow> Mat" where
  "mat_add M i j v = M\<lparr>at_rc := (at_rc M)(i := (at_rc M i)(j := at_rc M i j + v))\<rparr>"

text \<open>The same statement where the indices come from elsewhere: \<open>cv::Mat::at\<close> does not
  check them, so an index outside the matrix is undefined behaviour.\<close>

definition mat_add_at :: "Mat \<Rightarrow> nat \<Rightarrow> nat \<Rightarrow> real \<Rightarrow> fault + Mat" where
  "mat_add_at M i j v = (if i < rows M \<and> j < cols M then Inr (mat_add M i j v) else Inl OutOfRange)"

text \<open>\<open>TRect\<close>: the fields read here are \<open>dx[2]\<close>, \<open>N_bins[2]\<close>, \<open>min[2]\<close> and
  \<open>max[2]\<close>; its method \<open>get_interpolant\<close> is defined outside these sources and is a field
  of the record: \<open>None\<close> stands for the return value \<open>false\<close>, and
  \<open>Some (idx0, idx1, a0, a1)\<close> for \<open>true\<close> with the four reference parameters.\<close>

record TRect =
  dx :: "nat \<Rightarrow> real"
  N_bins :: "nat \<Rightarrow> nat"
  min_rect :: "nat \<Rightarrow> real"
  max_rect :: "nat \<Rightarrow> real"
  get_interpolant :: "real \<Rightarrow> real \<Rightarrow> (nat \<times> nat \<times> real \<times> real) option"

subsection \<open>gaussian\_filter (lines 245--348)\<close>

definition fsqrt :: "real \<Rightarrow> fault + real" where
  "fsqrt x = (if x < 0 then Inl NonFinite else Inr (sqrt x))"

text \<open>A value of type \<open>int\<close> (32 bits): the conversion \<open>(int)\<close> of a double outside
  the range, and signed overflow, are undefined behaviour.\<close>

definition int_checked :: "int \<Rightarrow> fault + int" where
  "int_checked x = (if - (2 ^ 31) \<le> x \<and> x < 2 ^ 31 then Inr x else Inl IntRange)"

text \<open>Lines 251--272, the branch \<open>add_diagonal > 0\<close>: the inverse covariance is inverted,
  \<open>diag[i]\<^sup>2\<close> is added to the diagonal, and the result is inverted back. Both
  determinants are used as computed.\<close>

definition add_diagonal_branch ::
  "real \<Rightarrow> real \<Rightarrow> real \<Rightarrow> TRect \<Rightarrow> real \<Rightarrow> fault + real \<times> real \<times> real" where
  "add_diagonal_branch inv_cov_00 inv_cov_01 inv_cov_11 grid add_diagonal =
     (let diag0 = add_diagonal * dx grid 0;
          diag1 = add_diagonal * dx grid 1;
          det = inv_cov_00 * inv_cov_11 - inv_cov_01 * inv_cov_01
      in bind (fdiv inv_cov_11 det) (\<lambda>cov_00.
         bind (fdiv inv_cov_00 det) (\<lambda>cov_11.
         bind (fdiv (- inv_cov_01) det) (\<lambda>cov_01.
           let cov_00' = cov_00 + diag0 * diag0;
               cov_11' = cov_11 + diag1 * diag1;
               det' = cov_00' * cov_11' - cov_01 * cov_01
           in bind (fdiv cov_11' det') (\<lambda>inv_cov_00'.
              bind (fdiv cov_00' det') (\<lambda>inv_cov_11'.
              bind (fdiv (- cov_01) det') (\<lambda>inv_cov_01'.
                Inr (inv_cov_00', inv_cov_01', inv_cov_11'))))))))"

text \<open>Lines 275--279: \<open>sigma[0]\<close> and \<open>sigma[1]\<close>.\<close>

definition filter_sigma :: "real \<Rightarrow> real \<Rightarrow> real \<Rightarrow> fault + real \<times> real" where
  "filter_sigma inv_cov_00 inv_cov_01 inv_cov_11 =
     (let det = inv_cov_00 * inv_cov_11 - inv_cov_01 * inv_cov_01 + 1 / 100000
      in bind (fdiv inv_cov_11 det) (\<lambda>v0.
         bind (fsqrt v0) (\<lambda>sigma0.
         bind (fdiv inv_cov_00 det) (\<lambda>v1.
         bind (fsqrt v1) (\<lambda>sigma1.
           Inr (sigma0, sigma1))))))"

text \<open>Line 286: \<open>std::max(min_width, (int)(ceil(n_sigma * sigma[i] / grid.dx[i])))\<close>.\<close>

definition filter_width :: "real \<Rightarrow> int \<Rightarrow> real \<Rightarrow> real \<Rightarrow> fault + int" where
  "filter_width n_sigma min_width sigma_i dx_i =
     bind (fdiv (n_sigma * sigma_i) dx_i) (\<lambda>q.
     bind (int_checked \<lceil>q\<rceil>) (\<lambda>c.
       Inr (max min_width c)))"

text \<open>Lines 322--332: the weight written at \<open>(i, j)\<close> of the sub-sampled image.\<close>

definition filter_weight ::
  "real \<Rightarrow> real \<Rightarrow> real \<Rightarrow> TRect \<Rightarrow> int \<Rightarrow> real \<Rightarrow> real \<Rightarrow> nat \<Rightarrow> nat \<Rightarrow> real" where
  "filter_weight inv_cov_00 inv_cov_01 inv_cov_11 grid subsample w0 h0 i j =
     (let x_off = (real i - w0) * dx grid 0 / real_of_int subsample;
          cxx = inv_cov_00 * x_off * x_off;
          y_off = (real j - h0) * dx grid 1 / real_of_int subsample;
          cxy = inv_cov_01 * x_off * y_off;
          cyy = inv_cov_11 * y_off * y_off
      in exp (- 0.5 * (cxx + 2 * cxy + cyy)))"

text \<open>Lines 321--336: the two nested loops over the sub-sampled image.\<close>

definition filter_fill ::
  "real \<Rightarrow> real \<Rightarrow> real \<Rightarrow> TRect \<Rightarrow> int \<Rightarrow> real \<Rightarrow> real \<Rightarrow> nat \<Rightarrow> nat \<Rightarrow> Mat \<Rightarrow> Mat" where
  "filter_fill inv_cov_00 inv_cov_01 inv_cov_11 grid subsample w0 h0 w_sub h_sub img_sub =
     fold (\<lambda>i M.
        fold (\<lambda>j M'.
            mat_add M' i j (filter_weight inv_cov_00 inv_cov_01 inv_cov_11 grid subsample w0 h0 i j))
          [0..<h_sub] M)
       [0..<w_sub] img_sub"

text \<open>\<open>cv::resize(src, dst, cv::Size(c, r), 0, 0, cv::INTER_AREA)\<close> where the size of
  \<open>src\<close> is an integer multiple of the size of \<open>dst\<close>, as it is at line 341: each element
  of \<open>dst\<close> is the mean of its block of \<open>src\<close> (area decimation). This is OpenCV's
  function, written here as the design notes of the specification describe it.\<close>

definition resize_area :: "Mat \<Rightarrow> nat \<Rightarrow> nat \<Rightarrow> Mat" where
  "resize_area src r c =
     (let sr = rows src div r; sc = cols src div c
      in \<lparr>rows = r, cols = c,
          at_rc = (\<lambda>i j. (\<Sum>a<sr. \<Sum>b<sc. at_rc src (i * sr + a) (j * sc + b)) / real (sr * sc))\<rparr>)"

text \<open>Line 344, \<open>img /= img.at<floating_t>(width[0], width[1])\<close>.\<close>

definition mat_div :: "Mat \<Rightarrow> real \<Rightarrow> fault + Mat" where
  "mat_div M c = (if c = 0 then Inl NonFinite else Inr (M\<lparr>at_rc := (\<lambda>i j. at_rc M i j / c)\<rparr>))"

text \<open>Lines 250--272: the inverse covariance that the rest of the function uses.\<close>

definition add_extra_smoothing ::
  "real \<Rightarrow> real \<Rightarrow> real \<Rightarrow> TRect \<Rightarrow> real \<Rightarrow> fault + real \<times> real \<times> real" where
  "add_extra_smoothing inv_cov_00 inv_cov_01 inv_cov_11 grid add_diagonal =
     (if add_diagonal > 0
      then add_diagonal_branch inv_cov_00 inv_cov_01 inv_cov_11 grid add_diagonal
      else Inr (inv_cov_00, inv_cov_01, inv_cov_11))"

text \<open>The result is the kernel \<open>img\<close>. \<open>cv::Mat::zeros\<close> rejects a negative size and
  \<open>cv::resize\<close> an empty source or destination. The parameter \<open>verbosity\<close> only prints.\<close>

definition gaussian_filter ::
  "real \<Rightarrow> real \<Rightarrow> real \<Rightarrow> TRect \<Rightarrow> real \<Rightarrow> int \<Rightarrow> real \<Rightarrow> int \<Rightarrow> fault + Mat" where
  "gaussian_filter inv_cov_00 inv_cov_01 inv_cov_11 grid n_sigma min_width add_diagonal subsample =
     bind (add_extra_smoothing inv_cov_00 inv_cov_01 inv_cov_11 grid add_diagonal)
       (\<lambda>(inv_cov_00, inv_cov_01, inv_cov_11).
     bind (filter_sigma inv_cov_00 inv_cov_01 inv_cov_11) (\<lambda>(sigma0, sigma1).
     bind (filter_width n_sigma min_width sigma0 (dx grid 0)) (\<lambda>width0.
     bind (filter_width n_sigma min_width sigma1 (dx grid 1)) (\<lambda>width1.
     bind (int_checked (2 * width0 + 1)) (\<lambda>w.
     bind (int_checked (2 * width1 + 1)) (\<lambda>h.
     bind (int_checked (subsample * w)) (\<lambda>w_sub.
     bind (int_checked (subsample * h)) (\<lambda>h_sub.
       if w_sub \<le> 0 \<or> h_sub \<le> 0 \<or> w \<le> 0 \<or> h \<le> 0 then Inl CvException
       else
         let w0 = 0.5 * real_of_int (w_sub - 1);
             h0 = 0.5 * real_of_int (h_sub - 1);
             img_sub = filter_fill inv_cov_00 inv_cov_01 inv_cov_11 grid subsample w0 h0
                         (nat w_sub) (nat h_sub) (zeros (nat w_sub) (nat h_sub));
             img_down = resize_area img_sub (nat w) (nat h)
         in mat_div img_down (at_rc img_down (nat width0) (nat width1))))))))))"

subsection \<open>integrate\_ML\_solution (lines 353--505)\<close>

text \<open>The collaborators, as records of the methods that are called.
  \<open>get_sed\<close> returns \<open>None\<close> for \<open>false\<close> and \<open>Some (sed, Mr, FeH)\<close> for \<open>true\<close> with
  its three reference parameters.\<close>

record TStellarModel =
  get_N_Mr :: nat
  get_N_FeH :: nat
  get_sed :: "nat \<Rightarrow> nat \<Rightarrow> (TSED \<times> real \<times> real) option"
  get_log_lf :: "real \<Rightarrow> real"

record TGalacticLOSModel =
  log_prior_emp :: "real \<Rightarrow> real \<Rightarrow> real \<Rightarrow> real"

text \<open>\<open>TImgStack\<close>: the images, one for each star, and the grid.\<close>

record TImgStack =
  img :: "Mat list"
  rect :: TRect

text \<open>Modelled from the spec: \<open>TImgStack::initialize_to_zero\<close>, whose code is outside these
  sources. The surface of a star is ``created zero-initialized before marginalization'' and
  has ``the same shape as the grid geometry''. It returns \<open>false\<close> where there is no such
  image.\<close>

definition initialize_to_zero :: "TImgStack \<Rightarrow> nat \<Rightarrow> bool \<times> TImgStack" where
  "initialize_to_zero img_stack img_idx =
     (if img_idx < length (img img_stack)
      then (True, img_stack\<lparr>img := (img img_stack)
              [img_idx := zeros (N_bins (rect img_stack) 0) (N_bins (rect img_stack) 1)]\<rparr>)
      else (False, img_stack))"

text \<open>The vectors \<open>E_ML\<close>, \<open>mu_ML\<close>, \<open>chi2_ML\<close> and \<open>prior_ML\<close> receive one \<open>push_back\<close>
  each for every recorded cell (lines 425--428) and are read at the same index \<open>k\<close>
  afterwards; the assertions of lines 443--445 say that their sizes agree. The model
  keeps them as one list with the four values of each cell.\<close>

record ML_cell =
  E_ML :: real
  mu_ML :: real
  chi2_ML :: real
  prior_ML :: real

text \<open>Lines 413--420: the prior of a cell.\<close>

definition cell_prior ::
  "TStellarModel \<Rightarrow> TGalacticLOSModel \<Rightarrow> TMagnitudes \<Rightarrow> bool \<Rightarrow> bool \<Rightarrow> real \<Rightarrow> real \<Rightarrow> real
     \<Rightarrow> fault + real" where
  "cell_prior stellar_model los_model mags_obs use_priors use_gaia mu Mr FeH =
     (let prior = 0;
          prior = (if use_priors
                   then prior + (log_prior_emp los_model mu Mr FeH + get_log_lf stellar_model Mr)
                   else prior)
      in if use_gaia
         then let pi_mu = 10 powr (- (mu + 5) / 5)
              in bind (fdiv (- 0.5 * (obs_pi mags_obs - pi_mu) * (obs_pi mags_obs - pi_mu))
                            (obs_pierr mags_obs * obs_pierr mags_obs)) (\<lambda>t.
                   Inr (prior + t))
         else Inr prior)"

text \<open>Lines 396--428: the body of the loops over \<open>(Mr_idx, FeH_idx)\<close>. A cell without SED
  is skipped (\<open>continue\<close>).\<close>

definition sweep_body ::
  "nat \<Rightarrow> (real \<Rightarrow> nat \<Rightarrow> real) \<Rightarrow> TStellarModel \<Rightarrow> TGalacticLOSModel \<Rightarrow> TMagnitudes
     \<Rightarrow> bool \<Rightarrow> bool \<Rightarrow> real \<Rightarrow> real \<times> real \<times> real \<Rightarrow> nat \<times> nat \<Rightarrow> ML_cell list
     \<Rightarrow> fault + ML_cell list" where
  "sweep_body NBANDS get_A stellar_model los_model mags_obs use_priors use_gaia RV inv_cov idx cells =
     (case idx of (Mr_idx, FeH_idx) \<Rightarrow>
      case inv_cov of (inv_cov_00, inv_cov_01, inv_cov_11) \<Rightarrow>
      case get_sed stellar_model Mr_idx FeH_idx of
        None \<Rightarrow> Inr cells
      | Some (sed, Mr, FeH) \<Rightarrow>
          bind (star_max_likelihood NBANDS get_A sed mags_obs inv_cov_00 inv_cov_01 inv_cov_11 RV)
            (\<lambda>(mu, E, chi2).
          bind (cell_prior stellar_model los_model mags_obs use_priors use_gaia mu Mr FeH)
            (\<lambda>prior.
              Inr (cells @ [\<lparr>E_ML = E, mu_ML = mu, chi2_ML = chi2, prior_ML = prior\<rparr>]))))"

text \<open>Lines 394--432: \<open>Mr_idx\<close> is the outer index, \<open>FeH_idx\<close> the inner one.\<close>

definition grid_indices :: "nat \<Rightarrow> nat \<Rightarrow> (nat \<times> nat) list" where
  "grid_indices N_Mr N_FeH = concat (map (\<lambda>Mr_idx. map (\<lambda>FeH_idx. (Mr_idx, FeH_idx)) [0..<N_FeH]) [0..<N_Mr])"

definition sweep ::
  "nat \<Rightarrow> (real \<Rightarrow> nat \<Rightarrow> real) \<Rightarrow> TStellarModel \<Rightarrow> TGalacticLOSModel \<Rightarrow> TMagnitudes
     \<Rightarrow> bool \<Rightarrow> bool \<Rightarrow> real \<Rightarrow> real \<times> real \<times> real \<Rightarrow> fault + ML_cell list" where
  "sweep NBANDS get_A stellar_model los_model mags_obs use_priors use_gaia RV inv_cov =
     for_loop (grid_indices (get_N_Mr stellar_model) (get_N_FeH stellar_model))
       (sweep_body NBANDS get_A stellar_model los_model mags_obs use_priors use_gaia RV inv_cov) []"

text \<open>\<open>*std::max_element(v.begin(), v.end())\<close> and \<open>*std::min_element(v.begin(), v.end())\<close>:
  a scan that keeps the first largest (smallest) element; on an empty vector the result
  is \<open>end()\<close>, and dereferencing it is undefined behaviour.\<close>

fun max_element :: "real list \<Rightarrow> fault + real" where
  "max_element [] = Inl EmptyRange"
| "max_element (x # xs) = Inr (fold (\<lambda>y largest. if largest < y then y else largest) xs x)"

fun min_element :: "real list \<Rightarrow> fault + real" where
  "min_element [] = Inl EmptyRange"
| "min_element (x # xs) = Inr (fold (\<lambda>y smallest. if y < smallest then y else smallest) xs x)"

text \<open>Lines 461--464: the weight \<open>p\<close> of a cell.\<close>

definition cell_p :: "real \<Rightarrow> real \<Rightarrow> ML_cell \<Rightarrow> real" where
  "cell_p chi2_min prior_max cell =
     (let log_p = - 0.5 * (chi2_ML cell - chi2_min);
          log_p = log_p + (prior_ML cell - prior_max)
      in exp log_p)"

text \<open>Lines 451--472: the body of the loop over the recorded cells. The four writes are
  under the single test of \<open>in_bounds\<close>, the value that \<open>get_interpolant\<close> returned.\<close>

definition deposit_body :: "TRect \<Rightarrow> real \<Rightarrow> real \<Rightarrow> ML_cell \<Rightarrow> Mat \<Rightarrow> fault + Mat" where
  "deposit_body grid chi2_min prior_max cell M =
     (case get_interpolant grid (E_ML cell) (mu_ML cell) of
        None \<Rightarrow> Inr M
      | Some (img_idx0, img_idx1, a0, a1) \<Rightarrow>
          let p = cell_p chi2_min prior_max cell
          in bind (mat_add_at M img_idx0 img_idx1 ((1 - a0) * (1 - a1) * p)) (\<lambda>M.
             bind (mat_add_at M (img_idx0 + 1) img_idx1 (a0 * (1 - a1) * p)) (\<lambda>M.
             bind (mat_add_at M img_idx0 (img_idx1 + 1) ((1 - a0) * a1 * p)) (\<lambda>M.
                   mat_add_at M (img_idx0 + 1) (img_idx1 + 1) (a0 * a1 * p)))))"

definition deposit :: "TRect \<Rightarrow> real \<Rightarrow> real \<Rightarrow> ML_cell list \<Rightarrow> Mat \<Rightarrow> fault + Mat" where
  "deposit grid chi2_min prior_max cells M = for_loop cells (deposit_body grid chi2_min prior_max) M"

text \<open>\<open>cv::filter2D(src, dst, ddepth, kernel)\<close> with its default anchor (the centre of the
  kernel) and border mode: the correlation of \<open>src\<close> with \<open>kernel\<close>. This is OpenCV's
  function. The rule by which an index outside \<open>src\<close> is mapped to one inside (the
  border mode: reflection by default) is the parameter \<open>border\<close>, whose second argument
  is the length of the axis.\<close>

definition filter2D :: "(int \<Rightarrow> nat \<Rightarrow> nat) \<Rightarrow> Mat \<Rightarrow> Mat \<Rightarrow> Mat" where
  "filter2D border src kern =
     \<lparr>rows = rows src, cols = cols src,
      at_rc = (\<lambda>i j. if i < rows src \<and> j < cols src
         then (\<Sum>a<rows kern. \<Sum>b<cols kern.
                 at_rc kern a b *
                   at_rc src (border (int i + int a - int (rows kern div 2)) (rows src))
                             (border (int j + int b - int (cols kern div 2)) (cols src)))
         else 0)\<rparr>"

text \<open>Lines 491--497: the number of passbands. \<open>std::isnan\<close> and \<open>std::isinf\<close> are false
  of every finite value.\<close>

definition n_passbands :: "nat \<Rightarrow> TMagnitudes \<Rightarrow> nat" where
  "n_passbands NBANDS mags_obs =
     fold (\<lambda>i n. if obs_err mags_obs i > 1000000000 then n else n + 1) [0..<NBANDS] 0"

text \<open>The value returned at line 504, \<open>chi2_min / n_passbands\<close>: with no passband the
  quotient is an infinity or a NaN, which the function returns like any other value.\<close>

datatype chi2_per_passband = Finite real | NotFinite

text \<open>The result is the image stack as the function leaves it, and the returned value.
  At lines 478--480 the arguments of \<open>gaussian_filter\<close> are \<open>inv_cov_11\<close>, \<open>inv_cov_01\<close>,
  \<open>inv_cov_00\<close>, the grid, the kernel, 5, 2, 1.0 and \<open>verbosity\<close>: by position the last one
  is the parameter \<open>subsample\<close>. Where \<open>initialize_to_zero\<close> returns \<open>false\<close> the function
  prints a message and goes on to access the image, which does not exist.\<close>

definition integrate_ML_solution ::
  "nat \<Rightarrow> (int \<Rightarrow> nat \<Rightarrow> nat) \<Rightarrow> TStellarModel \<Rightarrow> TGalacticLOSModel \<Rightarrow> TMagnitudes
     \<Rightarrow> (real \<Rightarrow> nat \<Rightarrow> real) \<Rightarrow> TImgStack \<Rightarrow> nat \<Rightarrow> bool \<Rightarrow> bool \<Rightarrow> real \<Rightarrow> int
     \<Rightarrow> fault + TImgStack \<times> chi2_per_passband" where
  "integrate_ML_solution NBANDS border stellar_model los_model mags_obs get_A img_stack img_idx
       use_priors use_gaia RV verbosity =
     bind (star_covariance NBANDS get_A mags_obs RV) (\<lambda>(inv_cov_00, inv_cov_01, inv_cov_11).
     let img_stack = snd (initialize_to_zero img_stack img_idx) in
     bind (sweep NBANDS get_A stellar_model los_model mags_obs use_priors use_gaia RV
             (inv_cov_00, inv_cov_01, inv_cov_11)) (\<lambda>cells.
     bind (max_element (map prior_ML cells)) (\<lambda>prior_max.
     bind (min_element (map chi2_ML cells)) (\<lambda>chi2_min.
     if \<not> img_idx < length (img img_stack) then Inl OutOfRange
     else
     bind (deposit (rect img_stack) chi2_min prior_max cells (img img_stack ! img_idx)) (\<lambda>M.
     bind (gaussian_filter inv_cov_11 inv_cov_01 inv_cov_00 (rect img_stack) 5 2 1 verbosity)
       (\<lambda>cov_img.
         let filtered_img = filter2D border M cov_img;
             img_stack = img_stack\<lparr>img := (img img_stack)[img_idx := filtered_img]\<rparr>;
             n = n_passbands NBANDS mags_obs
         in Inr (img_stack, if n = 0 then NotFinite else Finite (chi2_min / real n))))))))"

subsection \<open>grid\_eval\_stars (lines 507--610)\<close>

text \<open>\<open>TEBVSmoothing\<close>, the two methods called, and the members of \<open>TStellarData\<close> read.\<close>

record TEBVSmoothing =
  get_pct_smoothing_max :: real
  calc_pct_smoothing :: "nat \<Rightarrow> real \<Rightarrow> real \<Rightarrow> nat \<Rightarrow> real list"

record TStellarData =
  nside :: nat
  star :: "TMagnitudes list"

text \<open>The methods of \<open>TImgStack\<close> and the constructor of \<open>TRect\<close> that grid\_eval\_stars
  calls and whose code is outside these sources.\<close>

record TImgStack_methods =
  TRect_new :: "real \<times> real \<Rightarrow> real \<times> real \<Rightarrow> nat \<times> nat \<Rightarrow> TRect"
  set_rect :: "TImgStack \<Rightarrow> TRect \<Rightarrow> TImgStack"
  crop :: "TImgStack \<Rightarrow> real \<Rightarrow> real \<Rightarrow> real \<Rightarrow> real \<Rightarrow> TImgStack"
  smooth :: "TImgStack \<Rightarrow> real list \<Rightarrow> TImgStack"

text \<open>Lines 531--546: the loop over the stars; \<open>chi2.push_back(chi2_min)\<close>.\<close>

definition stars_body ::
  "nat \<Rightarrow> (int \<Rightarrow> nat \<Rightarrow> nat) \<Rightarrow> TStellarModel \<Rightarrow> TGalacticLOSModel \<Rightarrow> TStellarData
     \<Rightarrow> (real \<Rightarrow> nat \<Rightarrow> real) \<Rightarrow> bool \<Rightarrow> bool \<Rightarrow> real \<Rightarrow> int
     \<Rightarrow> nat \<Rightarrow> TImgStack \<times> chi2_per_passband list \<Rightarrow> fault + TImgStack \<times> chi2_per_passband list" where
  "stars_body NBANDS border stellar_model los_model stellar_data get_A use_priors use_gaia RV verbosity
       i acc =
     (case acc of (img_stack, chi2) \<Rightarrow>
      bind (integrate_ML_solution NBANDS border stellar_model los_model (star stellar_data ! i) get_A
              img_stack i use_priors use_gaia RV verbosity) (\<lambda>(img_stack, chi2_min).
        Inr (img_stack, chi2 @ [chi2_min])))"

text \<open>Lines 565--567: \<open>sigma_pix[i] *= (double)i\<close>.\<close>

definition scale_sigma_pix :: "real list \<Rightarrow> real list" where
  "scale_sigma_pix sigma_pix =
     fold (\<lambda>i sp. sp[i := sp ! i * real i]) [0..<length sigma_pix] sigma_pix"

text \<open>The result is the image stack and the vector \<open>chi2\<close>. Writing the surfaces to disk
  (lines 574--588) and the timing output change neither and are left out.\<close>

definition grid_eval_stars ::
  "nat \<Rightarrow> (int \<Rightarrow> nat \<Rightarrow> nat) \<Rightarrow> TImgStack_methods \<Rightarrow> TGalacticLOSModel \<Rightarrow> (real \<Rightarrow> nat \<Rightarrow> real)
     \<Rightarrow> TStellarModel \<Rightarrow> TStellarData \<Rightarrow> TEBVSmoothing \<Rightarrow> TImgStack \<Rightarrow> bool \<Rightarrow> bool \<Rightarrow> real \<Rightarrow> int
     \<Rightarrow> fault + TImgStack \<times> chi2_per_passband list" where
  "grid_eval_stars NBANDS border methods los_model get_A stellar_model stellar_data EBV_smoothing
       img_stack use_priors use_gaia RV verbosity =
     (let new_rect = TRect_new methods (- 0.2, 3.75) (7.2, 19.25) (740, 124);
          img_stack = set_rect methods img_stack new_rect;
          n_stars = length (star stellar_data)
      in bind (for_loop [0..<n_stars]
                 (stars_body NBANDS border stellar_model los_model stellar_data get_A
                    use_priors use_gaia RV verbosity) (img_stack, [])) (\<lambda>(img_stack, chi2).
         let img_stack = crop methods img_stack 0 7 4 19
         in if get_pct_smoothing_max EBV_smoothing > 0
            then let sigma_pix = calc_pct_smoothing EBV_smoothing (nside stellar_data)
                                   (min_rect (rect img_stack) 0) (max_rect (rect img_stack) 0)
                                   (N_bins (rect img_stack) 0);
                     sigma_pix = scale_sigma_pix sigma_pix
                 in Inr (smooth methods img_stack sigma_pix, chi2)
            else Inr (img_stack, chi2)))"

section \<open>The claims as the specification words them, and concrete inputs\<close>

text \<open>The output of CovarianceSolver in the words of the specification: the three sums
  ``summed over non-missing bands only'', where ``errors \<open>\<ge> 1e9\<close> mark a band as missing''.\<close>

definition nonmissing_covariance ::
  "nat \<Rightarrow> (real \<Rightarrow> nat \<Rightarrow> real) \<Rightarrow> TMagnitudes \<Rightarrow> real \<Rightarrow> real \<times> real \<times> real" where
  "nonmissing_covariance NBANDS get_A mags_obs RV =
     (let present = filter (\<lambda>i. obs_err mags_obs i < 10 ^ 9) [0..<NBANDS]
      in (sum_list (map (\<lambda>i. 1 / (obs_err mags_obs i * obs_err mags_obs i)) present),
          sum_list (map (\<lambda>i. get_A RV i / (obs_err mags_obs i * obs_err mags_obs i)) present),
          sum_list (map (\<lambda>i. get_A RV i * get_A RV i / (obs_err mags_obs i * obs_err mags_obs i))
                      present)))"




text \<open>An extinction model with the coefficients 1, 2, 3, ... for the bands 0, 1, 2, ...\<close>

definition linear_A :: "real \<Rightarrow> nat \<Rightarrow> real" where
  "linear_A RV i = real i + 1"

text \<open>A star of two bands whose errors are both the sentinel \<open>1e9\<close>.\<close>

definition all_missing_star :: TMagnitudes where
  "all_missing_star = \<lparr>obs_m = (\<lambda>i. 0), obs_err = (\<lambda>i. 10 ^ 9), obs_pi = 0, obs_pierr = 1\<rparr>"

text \<open>A star of two bands: band 0 is measured with the error 0.1, band 1 is missing
  (error \<open>1e10\<close>).\<close>

definition one_missing_star :: TMagnitudes where
  "one_missing_star =
     \<lparr>obs_m = (\<lambda>i. 0), obs_err = (\<lambda>i. if i = 0 then 1 / 10 else 10 ^ 10),
      obs_pi = 0, obs_pierr = 1\<rparr>"

text \<open>A SED with the absolute magnitudes 5 and 4, and the star observed without noise
  from it at \<open>mu = 10\<close>, \<open>E = 2\<close> under \<open>linear_A\<close>, with the error 0.01 in both bands.\<close>

definition noiseless_sed :: TSED where
  "noiseless_sed i = (if i = 0 then 5 else 4)"

definition noiseless_star :: TMagnitudes where
  "noiseless_star =
     \<lparr>obs_m = (\<lambda>i. if i = 0 then 17 else 18), obs_err = (\<lambda>i. 1 / 100),
      obs_pi = 0, obs_pierr = 1\<rparr>"

text \<open>A grid with bins of width 1 on both axes, 5 by 5 bins over \<open>[0, 5)\<close>, on which no
  point is in bounds.\<close>

definition unit_grid :: TRect where
  "unit_grid = \<lparr>dx = (\<lambda>i. 1), N_bins = (\<lambda>i. 5), min_rect = (\<lambda>i. 0), max_rect = (\<lambda>i. 5),
                 get_interpolant = (\<lambda>x y. None)\<rparr>"

text \<open>The same photometry with the error \<open>1e10\<close> in both bands: a star without any
  non-missing band.\<close>

definition faint_star :: TMagnitudes where
  "faint_star =
     \<lparr>obs_m = (\<lambda>i. if i = 0 then 17 else 18), obs_err = (\<lambda>i. 10 ^ 10),
      obs_pi = 0, obs_pierr = 1\<rparr>"

text \<open>A stellar library with the single cell \<open>(0, 0)\<close>, whose SED is \<open>noiseless_sed\<close>
  with \<open>Mr = 5\<close> and \<open>FeH = 0\<close>; a library of 3 by 3 cells none of which has a SED; a
  line-of-sight model with a flat prior.\<close>

definition one_sed_model :: TStellarModel where
  "one_sed_model =
     \<lparr>get_N_Mr = 1, get_N_FeH = 1,
      get_sed = (\<lambda>Mr_idx FeH_idx. if Mr_idx = 0 \<and> FeH_idx = 0 then Some (noiseless_sed, 5, 0) else None),
      get_log_lf = (\<lambda>Mr. 0)\<rparr>"

definition empty_model :: TStellarModel where
  "empty_model =
     \<lparr>get_N_Mr = 3, get_N_FeH = 3, get_sed = (\<lambda>Mr_idx FeH_idx. None), get_log_lf = (\<lambda>Mr. 0)\<rparr>"

definition flat_los :: TGalacticLOSModel where
  "flat_los = \<lparr>log_prior_emp = (\<lambda>mu Mr FeH. 0)\<rparr>"

text \<open>The cell that the fit of these stars against \<open>noiseless_sed\<close> records.\<close>

definition fit_cell :: ML_cell where
  "fit_cell = \<lparr>E_ML = 2, mu_ML = 10, chi2_ML = 0, prior_ML = 0\<rparr>"

text \<open>An image stack with one image on \<open>unit_grid\<close>.\<close>

definition unit_stack :: TImgStack where
  "unit_stack = \<lparr>img = [zeros 5 5], rect = unit_grid\<rparr>"

text \<open>OpenCV's default border mode, \<open>BORDER_REFLECT_101\<close>: an index outside an axis of
  length \<open>len\<close> is reflected at the first and the last element.\<close>

definition border_reflect_101 :: "int \<Rightarrow> nat \<Rightarrow> nat" where
  "border_reflect_101 p len =
     (if len \<le> 1 then 0
      else let period = 2 * int len - 2; q = p mod period
           in if q < int len then nat q else nat (period - q))"

text \<open>Methods of the image stack that keep the images as they are: every grid is
  \<open>unit_grid\<close>, \<open>set_rect\<close> stores the grid, \<open>crop\<close> and \<open>smooth\<close> change nothing.\<close>

definition plain_methods :: TImgStack_methods where
  "plain_methods =
     \<lparr>TRect_new = (\<lambda>lo hi n. unit_grid), set_rect = (\<lambda>st r. st\<lparr>rect := r\<rparr>),
      crop = (\<lambda>st E_lo E_hi mu_lo mu_hi. st), smooth = (\<lambda>st sigma_pix. st)\<rparr>"

text \<open>A smoothing model with the base width 1 in every bin, and a pixel with one star.\<close>

definition unit_smoothing :: TEBVSmoothing where
  "unit_smoothing =
     \<lparr>get_pct_smoothing_max = 1, calc_pct_smoothing = (\<lambda>nside E_lo E_hi n. replicate n 1)\<rparr>"

definition one_star_pixel :: TStellarData where
  "one_star_pixel = \<lparr>nside = 512, star = [noiseless_star]\<rparr>"



section \<open>Proofs\<close>

subsection \<open>The loops over the bands as sums\<close>

lemma bind_Inr [simp]: "bind (Inr x) f = f x"
  by (simp add: bind_def)

lemma bind_Inl [simp]: "bind (Inl e) f = Inl e"
  by (simp add: bind_def)

lemma for_loop_append:
  "for_loop (xs @ ys) body s =
     (case for_loop xs body s of Inl e \<Rightarrow> Inl e | Inr s' \<Rightarrow> for_loop ys body s')"
  by (induction xs arbitrary: s) (auto split: sum.splits)

lemma star_covariance_body_ok:
  "obs_err mags_obs i \<noteq> 0 \<Longrightarrow>
   star_covariance_body get_A RV mags_obs i (a, b, c) =
     Inr (a + 1 / (obs_err mags_obs i * obs_err mags_obs i),
          b + get_A RV i / (obs_err mags_obs i * obs_err mags_obs i),
          c + get_A RV i * get_A RV i / (obs_err mags_obs i * obs_err mags_obs i))"
  by (simp add: star_covariance_body_def fdiv_def Let_def)

lemma star_covariance_loop:
  assumes "\<forall>i<n. obs_err mags_obs i \<noteq> 0"
  shows "for_loop [0..<n] (star_covariance_body get_A RV mags_obs) (a, b, c) =
           Inr (a + (\<Sum>i<n. 1 / (obs_err mags_obs i * obs_err mags_obs i)),
                b + (\<Sum>i<n. get_A RV i / (obs_err mags_obs i * obs_err mags_obs i)),
                c + (\<Sum>i<n. get_A RV i * get_A RV i / (obs_err mags_obs i * obs_err mags_obs i)))"
  using assms
proof (induction n)
  case 0
  show ?case by simp
next
  case (Suc n)
  then have nz: "obs_err mags_obs n \<noteq> 0" and IH: "for_loop [0..<n] (star_covariance_body get_A RV mags_obs) (a, b, c) =
           Inr (a + (\<Sum>i<n. 1 / (obs_err mags_obs i * obs_err mags_obs i)),
                b + (\<Sum>i<n. get_A RV i / (obs_err mags_obs i * obs_err mags_obs i)),
                c + (\<Sum>i<n. get_A RV i * get_A RV i / (obs_err mags_obs i * obs_err mags_obs i)))" by simp_all
  show ?case
    by (simp add: for_loop_append IH star_covariance_body_ok nz add.assoc)
qed

lemma star_covariance_sums:
  assumes "\<forall>i<NBANDS. obs_err mags_obs i \<noteq> 0"
  shows "star_covariance NBANDS get_A mags_obs RV =
           Inr (\<Sum>i<NBANDS. 1 / (obs_err mags_obs i * obs_err mags_obs i),
                \<Sum>i<NBANDS. get_A RV i / (obs_err mags_obs i * obs_err mags_obs i),
                \<Sum>i<NBANDS. get_A RV i * get_A RV i / (obs_err mags_obs i * obs_err mags_obs i))"
  unfolding star_covariance_def using star_covariance_loop [OF assms, of get_A RV 0 0 0]
  by simp

lemma ml_sums_body_ok:
  "obs_err mags_obs i \<noteq> 0 \<Longrightarrow>
   ml_sums_body get_A RV mags_model mags_obs i (a, b) =
     Inr (a + (obs_m mags_obs i - mags_model i) / (obs_err mags_obs i * obs_err mags_obs i),
          b + (obs_m mags_obs i - mags_model i) * get_A RV i / (obs_err mags_obs i * obs_err mags_obs i))"
  by (simp add: ml_sums_body_def fdiv_def Let_def)

lemma ml_sums_loop:
  assumes "\<forall>i<n. obs_err mags_obs i \<noteq> 0"
  shows "for_loop [0..<n] (ml_sums_body get_A RV mags_model mags_obs) (a, b) =
           Inr (a + (\<Sum>i<n. (obs_m mags_obs i - mags_model i) / (obs_err mags_obs i * obs_err mags_obs i)),
                b + (\<Sum>i<n. (obs_m mags_obs i - mags_model i) * get_A RV i / (obs_err mags_obs i * obs_err mags_obs i)))"
  using assms
proof (induction n)
  case 0
  show ?case by simp
next
  case (Suc n)
  then have nz: "obs_err mags_obs n \<noteq> 0" and IH: "for_loop [0..<n] (ml_sums_body get_A RV mags_model mags_obs) (a, b) =
           Inr (a + (\<Sum>i<n. (obs_m mags_obs i - mags_model i) / (obs_err mags_obs i * obs_err mags_obs i)),
                b + (\<Sum>i<n. (obs_m mags_obs i - mags_model i) * get_A RV i / (obs_err mags_obs i * obs_err mags_obs i)))" by simp_all
  show ?case
    by (simp add: for_loop_append IH ml_sums_body_ok nz add.assoc)
qed

lemma ml_sums_sums:
  assumes "\<forall>i<NBANDS. obs_err mags_obs i \<noteq> 0"
  shows "ml_sums NBANDS get_A RV mags_model mags_obs =
           Inr (\<Sum>i<NBANDS. (obs_m mags_obs i - mags_model i) / (obs_err mags_obs i * obs_err mags_obs i),
                \<Sum>i<NBANDS. (obs_m mags_obs i - mags_model i) * get_A RV i / (obs_err mags_obs i * obs_err mags_obs i))"
  unfolding ml_sums_def using ml_sums_loop [OF assms, of get_A RV mags_model 0 0]
  by simp

lemma chi2_body_ok:
  "obs_err mags_obs i \<noteq> 0 \<Longrightarrow>
   chi2_body get_A RV mags_model mags_obs mu E i a =
     Inr (a + (obs_m mags_obs i - mags_model i - E * get_A RV i - mu)
               * (obs_m mags_obs i - mags_model i - E * get_A RV i - mu)
               / (obs_err mags_obs i * obs_err mags_obs i))"
  by (simp add: chi2_body_def fdiv_def Let_def)

lemma chi2_loop_loop:
  assumes "\<forall>i<n. obs_err mags_obs i \<noteq> 0"
  shows "for_loop [0..<n] (chi2_body get_A RV mags_model mags_obs mu E) a =
           Inr (a + (\<Sum>i<n. (obs_m mags_obs i - mags_model i - E * get_A RV i - mu)
               * (obs_m mags_obs i - mags_model i - E * get_A RV i - mu)
               / (obs_err mags_obs i * obs_err mags_obs i)))"
  using assms
proof (induction n)
  case 0
  show ?case by simp
next
  case (Suc n)
  then have nz: "obs_err mags_obs n \<noteq> 0" and IH: "for_loop [0..<n] (chi2_body get_A RV mags_model mags_obs mu E) a =
           Inr (a + (\<Sum>i<n. (obs_m mags_obs i - mags_model i - E * get_A RV i - mu)
               * (obs_m mags_obs i - mags_model i - E * get_A RV i - mu)
               / (obs_err mags_obs i * obs_err mags_obs i)))" by simp_all
  show ?case
    by (simp add: for_loop_append IH chi2_body_ok nz add.assoc)
qed

lemma chi2_loop_sums:
  assumes "\<forall>i<NBANDS. obs_err mags_obs i \<noteq> 0"
  shows "chi2_loop NBANDS get_A RV mags_model mags_obs mu E =
           Inr (\<Sum>i<NBANDS. (obs_m mags_obs i - mags_model i - E * get_A RV i - mu)
               * (obs_m mags_obs i - mags_model i - E * get_A RV i - mu)
               / (obs_err mags_obs i * obs_err mags_obs i))"
  unfolding chi2_loop_def using chi2_loop_loop [OF assms, of get_A RV mags_model mu E 0]
  by simp


lemma normal_equations_solution:
  fixes S0 S1 S2 mu E :: real
  assumes S0: "S0 \<noteq> 0" and S2: "S2 \<noteq> 0" and det: "S0 * S2 - S1 * S1 \<noteq> 0"
  shows "1 - S1 / S0 * (S1 / S2) \<noteq> 0"
    and "1 / (1 - S1 / S0 * (S1 / S2)) * ((mu * S0 + E * S1) / S0 - S1 / S0 * ((mu * S1 + E * S2) / S2)) = mu"
    and "1 / (1 - S1 / S0 * (S1 / S2)) * ((mu * S1 + E * S2) / S2 - S1 / S2 * ((mu * S0 + E * S1) / S0)) = E"
proof -
  have d: "1 - S1 / S0 * (S1 / S2) = (S0 * S2 - S1 * S1) / (S0 * S2)"
    using S0 S2 by (simp add: field_simps)
  show nz: "1 - S1 / S0 * (S1 / S2) \<noteq> 0"
    using S0 S2 det by (simp add: d)
  have a: "(mu * S0 + E * S1) / S0 - S1 / S0 * ((mu * S1 + E * S2) / S2) = mu * (1 - S1 / S0 * (S1 / S2))"
    using S0 S2 by (simp add: field_simps)
  have b: "(mu * S1 + E * S2) / S2 - S1 / S2 * ((mu * S0 + E * S1) / S0) = E * (1 - S1 / S0 * (S1 / S2))"
    using S0 S2 by (simp add: field_simps)
  show "1 / (1 - S1 / S0 * (S1 / S2)) * ((mu * S0 + E * S1) / S0 - S1 / S0 * ((mu * S1 + E * S2) / S2)) = mu"
    unfolding a using nz by simp
  show "1 / (1 - S1 / S0 * (S1 / S2)) * ((mu * S1 + E * S2) / S2 - S1 / S2 * ((mu * S0 + E * S1) / S0)) = E"
    unfolding b using nz by simp
qed


lemma fdiv_ok: "b \<noteq> 0 \<Longrightarrow> fdiv a b = Inr (a / b)"
  by (simp add: fdiv_def)

lemma star_max_likelihood_ok:
  assumes sums: "ml_sums NBANDS get_A RV mags_model mags_obs = Inr (d0, d1)"
    and c00: "inv_cov_00 \<noteq> 0" and c11: "inv_cov_11 \<noteq> 0"
    and det: "1 - inv_cov_01 / inv_cov_00 * (inv_cov_01 / inv_cov_11) \<noteq> 0"
  shows "star_max_likelihood NBANDS get_A mags_model mags_obs inv_cov_00 inv_cov_01 inv_cov_11 RV =
           bind (chi2_loop NBANDS get_A RV mags_model mags_obs
                   (1 / (1 - inv_cov_01 / inv_cov_00 * (inv_cov_01 / inv_cov_11))
                      * (d0 / inv_cov_00 - inv_cov_01 / inv_cov_00 * (d1 / inv_cov_11)))
                   (1 / (1 - inv_cov_01 / inv_cov_00 * (inv_cov_01 / inv_cov_11))
                      * (d1 / inv_cov_11 - inv_cov_01 / inv_cov_11 * (d0 / inv_cov_00))))
                (\<lambda>chi2. Inr
                   (1 / (1 - inv_cov_01 / inv_cov_00 * (inv_cov_01 / inv_cov_11))
                      * (d0 / inv_cov_00 - inv_cov_01 / inv_cov_00 * (d1 / inv_cov_11)),
                    1 / (1 - inv_cov_01 / inv_cov_00 * (inv_cov_01 / inv_cov_11))
                      * (d1 / inv_cov_11 - inv_cov_01 / inv_cov_11 * (d0 / inv_cov_00)),
                    chi2))"
  unfolding star_max_likelihood_def sums
  by (simp only: bind_Inr prod.case Let_def fdiv_ok [OF c00] fdiv_ok [OF c11] fdiv_ok [OF det])

text \<open>The fit of noiseless photometry, used for claim C2 and for the runs of
  integrate\_ML\_solution below.\<close>

lemma noiseless_fit:
  assumes gen: "\<forall>i<NBANDS. obs_m mags_obs i = mags_model i + mu_true + E_true * get_A RV i"
    and pos: "\<forall>i<NBANDS. 0 < obs_err mags_obs i"
    and cov: "star_covariance NBANDS get_A mags_obs RV = Inr (inv_cov_00, inv_cov_01, inv_cov_11)"
    and nondeg: "inv_cov_00 * inv_cov_11 - inv_cov_01 * inv_cov_01 \<noteq> 0"
  shows "star_max_likelihood NBANDS get_A mags_model mags_obs inv_cov_00 inv_cov_01 inv_cov_11 RV =
           Inr (mu_true, E_true, 0)"
proof -
  define e2 where "e2 i = obs_err mags_obs i * obs_err mags_obs i" for i
  have nz: "\<forall>i<NBANDS. obs_err mags_obs i \<noteq> 0"
    using pos by fastforce
  have e2_pos: "0 < e2 i" if "i < NBANDS" for i
    using pos that by (simp add: e2_def)
  have S0: "inv_cov_00 = (\<Sum>i<NBANDS. 1 / e2 i)"
    and S1: "inv_cov_01 = (\<Sum>i<NBANDS. get_A RV i / e2 i)"
    and S2: "inv_cov_11 = (\<Sum>i<NBANDS. get_A RV i * get_A RV i / e2 i)"
    using cov star_covariance_sums [OF nz, of get_A RV] by (simp_all add: e2_def)
  have c00: "inv_cov_00 \<noteq> 0"
  proof (cases "NBANDS = 0")
    case True
    with S0 S1 nondeg show ?thesis by simp
  next
    case False
    have "0 < (\<Sum>i<NBANDS. 1 / e2 i)"
      by (rule sum_pos) (use False e2_pos in auto)
    then show ?thesis by (simp add: S0)
  qed
  have c11: "inv_cov_11 \<noteq> 0"
  proof
    assume z: "inv_cov_11 = 0"
    have "\<forall>i\<in>{..<NBANDS}. get_A RV i * get_A RV i / e2 i = 0"
      using z unfolding S2
      by (subst (asm) sum_nonneg_eq_0_iff) (use e2_pos in \<open>auto simp: less_imp_le\<close>)
    then have "inv_cov_01 = 0"
      unfolding S1 by (intro sum.neutral) auto
    with z nondeg show False by simp
  qed
  have det: "1 - inv_cov_01 / inv_cov_00 * (inv_cov_01 / inv_cov_11) \<noteq> 0"
    by (rule normal_equations_solution(1) [OF c00 c11 nondeg])
  have dm: "obs_m mags_obs i - mags_model i = mu_true + E_true * get_A RV i" if "i < NBANDS" for i
    using gen that by simp
  have d0: "(\<Sum>i<NBANDS. (obs_m mags_obs i - mags_model i) / e2 i)
              = mu_true * inv_cov_00 + E_true * inv_cov_01"
  proof -
    have "(\<Sum>i<NBANDS. (obs_m mags_obs i - mags_model i) / e2 i)
            = (\<Sum>i<NBANDS. mu_true * (1 / e2 i) + E_true * (get_A RV i / e2 i))"
      by (rule sum.cong) (simp_all add: dm add_divide_distrib)
    then show ?thesis
      by (simp add: sum.distrib sum_distrib_left S0 S1)
  qed
  have d1: "(\<Sum>i<NBANDS. (obs_m mags_obs i - mags_model i) * get_A RV i / e2 i)
              = mu_true * inv_cov_01 + E_true * inv_cov_11"
  proof -
    have "(\<Sum>i<NBANDS. (obs_m mags_obs i - mags_model i) * get_A RV i / e2 i)
            = (\<Sum>i<NBANDS. mu_true * (get_A RV i / e2 i) + E_true * (get_A RV i * get_A RV i / e2 i))"
      by (rule sum.cong) (simp_all add: dm add_divide_distrib distrib_right)
    then show ?thesis
      by (simp add: sum.distrib sum_distrib_left S1 S2)
  qed
  have sums: "ml_sums NBANDS get_A RV mags_model mags_obs =
                Inr (mu_true * inv_cov_00 + E_true * inv_cov_01,
                     mu_true * inv_cov_01 + E_true * inv_cov_11)"
    using ml_sums_sums [OF nz, of get_A RV mags_model] d0 d1 by (simp add: e2_def)
  have chi2: "chi2_loop NBANDS get_A RV mags_model mags_obs mu_true E_true = Inr 0"
  proof -
    have "(\<Sum>i<NBANDS. (obs_m mags_obs i - mags_model i - E_true * get_A RV i - mu_true)
               * (obs_m mags_obs i - mags_model i - E_true * get_A RV i - mu_true) / e2 i) = 0"
      by (rule sum.neutral) (simp add: dm)
    then show ?thesis
      using chi2_loop_sums [OF nz, of get_A RV mags_model mu_true E_true] by (simp add: e2_def)
  qed
  show ?thesis
    unfolding star_max_likelihood_ok [OF sums c00 c11 det]
    unfolding normal_equations_solution(2) [OF c00 c11 nondeg]
      normal_equations_solution(3) [OF c00 c11 nondeg]
    by (simp add: chi2)
qed


subsection \<open>Claim C2: noiseless photometry is fitted exactly\<close>

text \<open>
  C2. The observed magnitudes are generated without noise from the SED \<open>mags_model\<close> at
  \<open>(mu_true, E_true)\<close>: \<open>m\<^sub>i = M\<^sub>i + mu_true + E_true \<cdot> A\<^sub>i\<close> in every band, the errors are
  positive, and the normal equations are not degenerate: the determinant of the inverse
  covariance that star\_covariance returns is not zero. Then star\_max\_likelihood, given
  that inverse covariance, returns \<open>mu = mu_true\<close>, \<open>E = E_true\<close> and \<open>chi2 = 0\<close>. Over the
  reals the equalities are exact; ``to floating-point tolerance'' is what remains of them
  under rounding, which is not modelled.
\<close>

theorem star_max_likelihood_recovers_truth:
  assumes gen: "\<forall>i<NBANDS. obs_m mags_obs i = mags_model i + mu_true + E_true * get_A RV i"
    and pos: "\<forall>i<NBANDS. 0 < obs_err mags_obs i"
    and cov: "star_covariance NBANDS get_A mags_obs RV = Inr (inv_cov_00, inv_cov_01, inv_cov_11)"
    and nondeg: "inv_cov_00 * inv_cov_11 - inv_cov_01 * inv_cov_01 \<noteq> 0"
  shows "star_max_likelihood NBANDS get_A mags_model mags_obs inv_cov_00 inv_cov_01 inv_cov_11 RV =
           Inr (mu_true, E_true, 0)"
  using gen pos cov nondeg by (rule noiseless_fit)

theorem star_max_likelihood_recovers_truth_witness:
  "star_covariance 2 linear_A noiseless_star 3.1 = Inr (20000, 30000, 50000)
   \<and> star_max_likelihood 2 linear_A noiseless_sed noiseless_star 20000 30000 50000 3.1
        = Inr (10, 2, 0)"
proof -
  have gen: "\<forall>i<2. obs_m noiseless_star i = noiseless_sed i + 10 + 2 * linear_A 3.1 i"
    by (simp add: noiseless_star_def noiseless_sed_def linear_A_def less_2_cases_iff)
  have pos: "\<forall>i<2. 0 < obs_err noiseless_star i"
    by (simp add: noiseless_star_def)
  have nz: "\<forall>i<2. obs_err noiseless_star i \<noteq> 0"
    by (simp add: noiseless_star_def)
  have cov: "star_covariance 2 linear_A noiseless_star 3.1 = Inr (20000, 30000, 50000)"
    using star_covariance_sums [OF nz, of linear_A "3.1"]
    by (simp add: numeral_2_eq_2 noiseless_star_def linear_A_def)
  have nondeg: "(20000::real) * 50000 - 30000 * 30000 \<noteq> 0"
    by simp
  show ?thesis
    using star_max_likelihood_recovers_truth [OF gen pos cov nondeg] cov by simp
qed

subsection \<open>Claim C1: which bands enter the sums\<close>

text \<open>
  C1, as the specification states it: the three sums of star\_covariance run over the
  non-missing bands only, so that a band with an error of at least \<open>1e9\<close> contributes
  nothing. It fails for a star of two bands that both have the error \<open>1e9\<close>: the claim
  gives three empty sums, and star\_covariance returns \<open>2e-18\<close>, \<open>3e-18\<close> and \<open>5e-18\<close>.
\<close>

theorem star_covariance_missing_bands_counterexample:
  "star_covariance 2 linear_A all_missing_star 3.1 = Inr (2 / 10 ^ 18, 3 / 10 ^ 18, 5 / 10 ^ 18)
   \<and> nonmissing_covariance 2 linear_A all_missing_star 3.1 = (0, 0, 0)
   \<and> star_covariance 2 linear_A all_missing_star 3.1
        \<noteq> Inr (nonmissing_covariance 2 linear_A all_missing_star 3.1)"
proof -
  have nz: "\<forall>i<2. obs_err all_missing_star i \<noteq> 0"
    by (simp add: all_missing_star_def)
  have cov: "star_covariance 2 linear_A all_missing_star 3.1
               = Inr (2 / 10 ^ 18, 3 / 10 ^ 18, 5 / 10 ^ 18)"
    using star_covariance_sums [OF nz, of linear_A "3.1"]
    by (simp add: numeral_2_eq_2 all_missing_star_def linear_A_def)
  have spec: "nonmissing_covariance 2 linear_A all_missing_star 3.1 = (0, 0, 0)"
    by (simp add: nonmissing_covariance_def all_missing_star_def)
  show ?thesis
    by (simp add: cov spec)
qed

text \<open>
  C1, amended. star\_covariance and the loops of star\_max\_likelihood test no error: where
  no error is zero, each of the six sums runs over all \<open>NBANDS\<close> bands. A band with an
  error \<open>\<sigma> \<ge> 1e9\<close> is not left out; it enters every sum with the weight \<open>1/\<sigma>\<^sup>2\<close>, which is
  positive and at most \<open>1e-18\<close>.
\<close>

theorem band_sums_run_over_all_bands:
  assumes "\<forall>i<NBANDS. obs_err mags_obs i \<noteq> 0"
  shows "star_covariance NBANDS get_A mags_obs RV =
           Inr (\<Sum>i<NBANDS. 1 / (obs_err mags_obs i * obs_err mags_obs i),
                \<Sum>i<NBANDS. get_A RV i / (obs_err mags_obs i * obs_err mags_obs i),
                \<Sum>i<NBANDS. get_A RV i * get_A RV i / (obs_err mags_obs i * obs_err mags_obs i))
         \<and> ml_sums NBANDS get_A RV mags_model mags_obs =
           Inr (\<Sum>i<NBANDS. (obs_m mags_obs i - mags_model i) / (obs_err mags_obs i * obs_err mags_obs i),
                \<Sum>i<NBANDS. (obs_m mags_obs i - mags_model i) * get_A RV i
                               / (obs_err mags_obs i * obs_err mags_obs i))
         \<and> chi2_loop NBANDS get_A RV mags_model mags_obs mu E =
           Inr (\<Sum>i<NBANDS. (obs_m mags_obs i - mags_model i - E * get_A RV i - mu)
                              * (obs_m mags_obs i - mags_model i - E * get_A RV i - mu)
                              / (obs_err mags_obs i * obs_err mags_obs i))
         \<and> (\<forall>i<NBANDS. 10 ^ 9 \<le> obs_err mags_obs i \<longrightarrow>
               0 < 1 / (obs_err mags_obs i * obs_err mags_obs i)
               \<and> 1 / (obs_err mags_obs i * obs_err mags_obs i) \<le> 1 / 10 ^ 18)"
proof -
  have w: "0 < 1 / (e * e) \<and> 1 / (e * e) \<le> 1 / 10 ^ 18" if "10 ^ 9 \<le> e" for e :: real
  proof -
    have "(10::real) ^ 9 * 10 ^ 9 \<le> e * e"
      using that by (intro mult_mono) simp_all
    then have "(10::real) ^ 18 \<le> e * e"
      by simp
    then show ?thesis
      by (simp add: frac_le)
  qed
  show ?thesis
    using star_covariance_sums [OF assms] ml_sums_sums [OF assms] chi2_loop_sums [OF assms] w
    by simp
qed

theorem band_sums_run_over_all_bands_witness:
  "star_covariance 2 linear_A one_missing_star 3.1 =
     Inr (100 + 1 / 10 ^ 20, 100 + 2 / 10 ^ 20, 100 + 4 / 10 ^ 20)"
proof -
  have nz: "\<forall>i<2. obs_err one_missing_star i \<noteq> 0"
    by (simp add: one_missing_star_def)
  show ?thesis
    using band_sums_run_over_all_bands [OF nz, of linear_A "3.1" noiseless_sed 0 0]
    by (simp add: numeral_2_eq_2 one_missing_star_def linear_A_def)
qed

subsection \<open>The kernel of gaussian\_filter\<close>

lemma fold_mat_add_row:
  "at_rc (fold (\<lambda>j M'. mat_add M' i j (f j)) [0..<n] M) i' j' =
     (if i' = i \<and> j' < n then at_rc M i' j' + f j' else at_rc M i' j')"
  by (induction n) (auto simp: mat_add_def)

lemma fold_mat_add_rows:
  "at_rc (fold (\<lambda>i M. fold (\<lambda>j M'. mat_add M' i j (f i j)) [0..<n] M) [0..<m] M0) i' j' =
     (if i' < m \<and> j' < n then at_rc M0 i' j' + f i' j' else at_rc M0 i' j')"
  by (induction m) (auto simp: fold_mat_add_row)

lemma filter_fill_at:
  "at_rc (filter_fill a b c grid s w0 h0 m n (zeros m n)) i j =
     (if i < m \<and> j < n then filter_weight a b c grid s w0 h0 i j else 0)"
  unfolding filter_fill_def by (simp add: fold_mat_add_rows zeros_def)

lemma filter_weight_pos: "0 < filter_weight a b c grid s w0 h0 i j"
  by (simp add: filter_weight_def Let_def)

lemma filter_fill_nonneg: "0 \<le> at_rc (filter_fill a b c grid s w0 h0 m n (zeros m n)) i j"
  by (simp add: filter_fill_at less_imp_le [OF filter_weight_pos])

lemma resize_area_nonneg:
  assumes "\<And>i j. 0 \<le> at_rc src i j"
  shows "0 \<le> at_rc (resize_area src r c) i j"
  by (simp add: resize_area_def Let_def sum_nonneg assms)

lemma resize_area_pos:
  assumes "\<And>a b. a < rows src div r \<Longrightarrow> b < cols src div c
             \<Longrightarrow> 0 < at_rc src (i * (rows src div r) + a) (j * (cols src div c) + b)"
    and "0 < rows src div r" and "0 < cols src div c"
  shows "0 < at_rc (resize_area src r c) i j"
proof -
  have inner: "0 < (\<Sum>b<cols src div c. at_rc src (i * (rows src div r) + a) (j * (cols src div c) + b))"
    if "a < rows src div r" for a
    by (rule sum_pos) (use assms that in auto)
  have "0 < (\<Sum>a<rows src div r. \<Sum>b<cols src div c.
               at_rc src (i * (rows src div r) + a) (j * (cols src div c) + b))"
    by (rule sum_pos) (use assms inner in auto)
  then show ?thesis
    using assms(2,3) by (simp add: resize_area_def Let_def)
qed

lemma fold_mat_add_row_dims:
  "rows (fold (\<lambda>j M'. mat_add M' i j (f j)) js M) = rows M
   \<and> cols (fold (\<lambda>j M'. mat_add M' i j (f j)) js M) = cols M"
  by (induction js arbitrary: M) (simp_all add: mat_add_def)

lemma fold_mat_add_rows_dims:
  "rows (fold (\<lambda>i M. fold (\<lambda>j M'. mat_add M' i j (f i j)) js M) is M0) = rows M0
   \<and> cols (fold (\<lambda>i M. fold (\<lambda>j M'. mat_add M' i j (f i j)) js M) is M0) = cols M0"
  by (induction "is" arbitrary: M0) (simp_all add: fold_mat_add_row_dims)

lemma filter_fill_dims:
  "rows (filter_fill a b c grid s w0 h0 m n (zeros m n)) = m
   \<and> cols (filter_fill a b c grid s w0 h0 m n (zeros m n)) = n"
  unfolding filter_fill_def by (simp add: fold_mat_add_rows_dims zeros_def)

lemma int_checked_ok: "- (2 ^ 31) \<le> x \<Longrightarrow> x < 2 ^ 31 \<Longrightarrow> int_checked x = Inr x"
  by (simp add: int_checked_def)

lemma filter_sigma_ok:
  assumes "0 < c00 * c11 - c01 * c01 + 1 / 100000" and "0 \<le> c00" and "0 \<le> c11"
  shows "filter_sigma c00 c01 c11 =
           Inr (sqrt (c11 / (c00 * c11 - c01 * c01 + 1 / 100000)),
                sqrt (c00 / (c00 * c11 - c01 * c01 + 1 / 100000)))"
proof -
  have "\<not> c11 / (c00 * c11 - c01 * c01 + 1 / 100000) < 0"
    and "\<not> c00 / (c00 * c11 - c01 * c01 + 1 / 100000) < 0"
    using assms by (simp_all add: not_less)
  then show ?thesis
    using assms(1) unfolding filter_sigma_def Let_def fdiv_def fsqrt_def by simp
qed

lemma filter_width_ok:
  assumes "dx_i \<noteq> 0" and "0 \<le> n_sigma * sigma_i / dx_i"
    and "\<lceil>n_sigma * sigma_i / dx_i\<rceil> < 2 ^ 31"
  shows "filter_width n_sigma min_width sigma_i dx_i = Inr (max min_width \<lceil>n_sigma * sigma_i / dx_i\<rceil>)"
proof -
  have "0 \<le> \<lceil>n_sigma * sigma_i / dx_i\<rceil>"
    using assms(2) by (simp add: ceiling_le_iff le_ceiling_iff)
  then have "int_checked \<lceil>n_sigma * sigma_i / dx_i\<rceil> = Inr \<lceil>n_sigma * sigma_i / dx_i\<rceil>"
    using assms(3) by (intro int_checked_ok) simp_all
  then show ?thesis
    using assms(1) unfolding filter_width_def fdiv_def by simp
qed

text \<open>The last stage, lines 295--344, for widths that are not negative and sizes that fit
  in an \<open>int\<close>.\<close>

lemma filter_image:
  fixes c00 c01 c11 :: real and grid :: TRect
  assumes W0: "0 \<le> W0" and W1: "0 \<le> W1" and s: "0 < s"
    and r0: "s * (2 * W0 + 1) < 2 ^ 31" and r1: "s * (2 * W1 + 1) < 2 ^ 31"
  defines "img_down \<equiv> resize_area
      (filter_fill c00 c01 c11 grid s
         (0.5 * real_of_int (s * (2 * W0 + 1) - 1)) (0.5 * real_of_int (s * (2 * W1 + 1) - 1))
         (nat (s * (2 * W0 + 1))) (nat (s * (2 * W1 + 1)))
         (zeros (nat (s * (2 * W0 + 1))) (nat (s * (2 * W1 + 1)))))
      (nat (2 * W0 + 1)) (nat (2 * W1 + 1))"
  shows "0 < at_rc img_down (nat W0) (nat W1)"
    and "0 \<le> at_rc img_down i j"
    and "rows img_down = nat (2 * W0 + 1)" and "cols img_down = nat (2 * W1 + 1)"
proof -
  let ?m = "nat (s * (2 * W0 + 1))" and ?n = "nat (s * (2 * W1 + 1))"
  have sr: "?m div nat (2 * W0 + 1) = nat s"
    using W0 s by (simp add: nat_mult_distrib)
  have sc: "?n div nat (2 * W1 + 1) = nat s"
    using W1 s by (simp add: nat_mult_distrib)
  have in_rows: "nat W0 * nat s + a < ?m" if "a < nat s" for a
  proof -
    have "nat W0 * nat s + a < nat W0 * nat s + nat s"
      using that by simp
    also have "\<dots> = nat s * (nat W0 + 1)"
      by (simp add: algebra_simps)
    also have "\<dots> \<le> nat s * nat (2 * W0 + 1)"
      using W0 by (intro mult_le_mono2) linarith
    also have "\<dots> = ?m"
      using s by (simp add: nat_mult_distrib)
    finally show ?thesis .
  qed
  have in_cols: "nat W1 * nat s + b < ?n" if "b < nat s" for b
  proof -
    have "nat W1 * nat s + b < nat W1 * nat s + nat s"
      using that by simp
    also have "\<dots> = nat s * (nat W1 + 1)"
      by (simp add: algebra_simps)
    also have "\<dots> \<le> nat s * nat (2 * W1 + 1)"
      using W1 by (intro mult_le_mono2) linarith
    also have "\<dots> = ?n"
      using s by (simp add: nat_mult_distrib)
    finally show ?thesis .
  qed
  show "0 < at_rc img_down (nat W0) (nat W1)"
    unfolding img_down_def
    by (rule resize_area_pos)
       (use s in \<open>simp_all add: filter_fill_dims sr sc filter_fill_at in_rows in_cols filter_weight_pos\<close>)
  show "0 \<le> at_rc img_down i j"
    unfolding img_down_def by (rule resize_area_nonneg) (rule filter_fill_nonneg)
  show "rows img_down = nat (2 * W0 + 1)" and "cols img_down = nat (2 * W1 + 1)"
    by (simp_all add: img_down_def resize_area_def Let_def)
qed

text \<open>The whole function, for an inverse covariance on which nothing faults.\<close>

lemma gaussian_filter_returns_kernel:
  fixes c00 c01 c11 n_sigma :: real and min_width subsample W0 W1 :: int
  assumes eff: "add_extra_smoothing inv_cov_00 inv_cov_01 inv_cov_11 grid add_diagonal
                  = Inr (c00, c01, c11)"
    and det: "0 < c00 * c11 - c01 * c01 + 1 / 100000"
    and c00: "0 \<le> c00" and c11: "0 \<le> c11"
    and dx0: "0 < dx grid 0" and dx1: "0 < dx grid 1"
    and n_sigma: "0 \<le> n_sigma" and min_width: "0 \<le> min_width" and subsample: "0 < subsample"
    and W0: "W0 = max min_width
               \<lceil>n_sigma * sqrt (c11 / (c00 * c11 - c01 * c01 + 1 / 100000)) / dx grid 0\<rceil>"
    and W1: "W1 = max min_width
               \<lceil>n_sigma * sqrt (c00 / (c00 * c11 - c01 * c01 + 1 / 100000)) / dx grid 1\<rceil>"
    and fit0: "subsample * (2 * W0 + 1) < 2 ^ 31"
    and fit1: "subsample * (2 * W1 + 1) < 2 ^ 31"
  shows "\<exists>k. gaussian_filter inv_cov_00 inv_cov_01 inv_cov_11 grid n_sigma min_width add_diagonal
                subsample = Inr k
             \<and> rows k = nat (2 * W0 + 1) \<and> cols k = nat (2 * W1 + 1)
             \<and> at_rc k (nat W0) (nat W1) = 1
             \<and> (\<forall>i j. 0 \<le> at_rc k i j)
             \<and> min_width \<le> W0 \<and> min_width \<le> W1"
proof -
  let ?det = "c00 * c11 - c01 * c01 + 1 / 100000"
  let ?q0 = "n_sigma * sqrt (c11 / ?det) / dx grid 0"
  let ?q1 = "n_sigma * sqrt (c00 / ?det) / dx grid 1"
  define img_down where "img_down = resize_area
      (filter_fill c00 c01 c11 grid subsample
         (0.5 * real_of_int (subsample * (2 * W0 + 1) - 1))
         (0.5 * real_of_int (subsample * (2 * W1 + 1) - 1))
         (nat (subsample * (2 * W0 + 1))) (nat (subsample * (2 * W1 + 1)))
         (zeros (nat (subsample * (2 * W0 + 1))) (nat (subsample * (2 * W1 + 1)))))
      (nat (2 * W0 + 1)) (nat (2 * W1 + 1))"
  have W0_nn: "0 \<le> W0" and W1_nn: "0 \<le> W1"
    using min_width by (simp_all add: W0 W1)
  have sig: "filter_sigma c00 c01 c11 = Inr (sqrt (c11 / ?det), sqrt (c00 / ?det))"
    by (rule filter_sigma_ok [OF det c00 c11])
  have q0: "0 \<le> ?q0" and q1: "0 \<le> ?q1"
    using n_sigma dx0 dx1 c00 c11 det by simp_all
  have le0: "2 * W0 + 1 \<le> subsample * (2 * W0 + 1)"
    using mult_right_mono [of 1 subsample "2 * W0 + 1"] subsample W0_nn by simp
  have le1: "2 * W1 + 1 \<le> subsample * (2 * W1 + 1)"
    using mult_right_mono [of 1 subsample "2 * W1 + 1"] subsample W1_nn by simp
  have "\<lceil>?q0\<rceil> \<le> W0" and "\<lceil>?q1\<rceil> \<le> W1"
    by (simp_all add: W0 W1)
  then have c0: "\<lceil>?q0\<rceil> < 2 ^ 31" and c1: "\<lceil>?q1\<rceil> < 2 ^ 31"
    using le0 le1 fit0 fit1 W0_nn W1_nn by linarith+
  have fw0: "filter_width n_sigma min_width (sqrt (c11 / ?det)) (dx grid 0) = Inr W0"
    unfolding W0 by (rule filter_width_ok) (use dx0 q0 c0 in simp_all)
  have fw1: "filter_width n_sigma min_width (sqrt (c00 / ?det)) (dx grid 1) = Inr W1"
    unfolding W1 by (rule filter_width_ok) (use dx1 q1 c1 in simp_all)
  have b0: "2 * W0 + 1 < 2 ^ 31" and b1: "2 * W1 + 1 < 2 ^ 31"
    using le0 le1 fit0 fit1 by linarith+
  have lo: "- (2 ^ 31) \<le> x" if "0 \<le> x" for x :: int
    using that by simp
  have w: "int_checked (2 * W0 + 1) = Inr (2 * W0 + 1)"
    by (rule int_checked_ok [OF lo b0]) (use W0_nn in linarith)
  have h: "int_checked (2 * W1 + 1) = Inr (2 * W1 + 1)"
    by (rule int_checked_ok [OF lo b1]) (use W1_nn in linarith)
  have w_sub: "int_checked (subsample * (2 * W0 + 1)) = Inr (subsample * (2 * W0 + 1))"
    by (rule int_checked_ok [OF lo fit0]) (use le0 W0_nn in linarith)
  have h_sub: "int_checked (subsample * (2 * W1 + 1)) = Inr (subsample * (2 * W1 + 1))"
    by (rule int_checked_ok [OF lo fit1]) (use le1 W1_nn in linarith)
  have sizes: "\<not> (subsample * (2 * W0 + 1) \<le> 0 \<or> subsample * (2 * W1 + 1) \<le> 0
                  \<or> 2 * W0 + 1 \<le> 0 \<or> 2 * W1 + 1 \<le> 0)"
    using le0 le1 W0_nn W1_nn by linarith
  have run: "gaussian_filter inv_cov_00 inv_cov_01 inv_cov_11 grid n_sigma min_width add_diagonal
               subsample = mat_div img_down (at_rc img_down (nat W0) (nat W1))"
    unfolding gaussian_filter_def img_down_def
    by (simp only: eff sig fw0 fw1 w h w_sub h_sub bind_Inr prod.case sizes if_False Let_def)
  have centre: "0 < at_rc img_down (nat W0) (nat W1)"
    and nonneg: "\<And>i j. 0 \<le> at_rc img_down i j"
    and dims: "rows img_down = nat (2 * W0 + 1)" "cols img_down = nat (2 * W1 + 1)"
    unfolding img_down_def
    by (rule filter_image [OF W0_nn W1_nn subsample fit0 fit1])+
  define k where "k = img_down\<lparr>at_rc := (\<lambda>i j. at_rc img_down i j / at_rc img_down (nat W0) (nat W1))\<rparr>"
  have "gaussian_filter inv_cov_00 inv_cov_01 inv_cov_11 grid n_sigma min_width add_diagonal
          subsample = Inr k"
    using centre by (simp add: run mat_div_def k_def)
  moreover have "rows k = nat (2 * W0 + 1)" "cols k = nat (2 * W1 + 1)"
    by (simp_all add: k_def dims)
  moreover have "at_rc k (nat W0) (nat W1) = 1"
    using centre by (simp add: k_def)
  moreover have "\<forall>i j. 0 \<le> at_rc k i j"
    using centre nonneg by (simp add: k_def less_imp_le)
  moreover have "min_width \<le> W0" "min_width \<le> W1"
    by (simp_all add: W0 W1)
  ultimately show ?thesis
    by blast
qed

text \<open>The extra smoothing keeps a positive definite inverse covariance positive definite;
  without it the matrix is passed on as it is.\<close>

lemma broadened_det_pos:
  fixes a b c s t :: real
  assumes a: "0 \<le> a" and c: "0 \<le> c" and D: "0 < a * c - b * b" and s: "0 \<le> s" and t: "0 \<le> t"
  shows "0 < (c / (a * c - b * b) + s) * (a / (a * c - b * b) + t)
             - - b / (a * c - b * b) * (- b / (a * c - b * b))"
proof -
  define D where "D = a * c - b * b"
  have Dpos: "0 < D"
    using assms(3) by (simp add: D_def)
  have core: "c / D * (a / D) - b / D * (b / D) = 1 / D"
  proof -
    have "c / D * (a / D) - b / D * (b / D) = (a * c - b * b) / (D * D)"
      by (simp add: diff_divide_distrib mult.commute)
    also have "\<dots> = 1 / D"
      using Dpos by (simp add: D_def [symmetric])
    finally show ?thesis .
  qed
  have "(c / D + s) * (a / D + t) - - b / D * (- b / D)
          = (c / D * (a / D) - b / D * (b / D)) + (c / D * t + s * (a / D) + s * t)"
    by (simp add: algebra_simps)
  also have "\<dots> = 1 / D + (c / D * t + s * (a / D) + s * t)"
    by (simp only: core)
  finally have det: "(c / D + s) * (a / D + t) - - b / D * (- b / D)
                       = 1 / D + (c / D * t + s * (a / D) + s * t)" .
  have cD: "0 \<le> c / D" and aD: "0 \<le> a / D"
    using a c Dpos by simp_all
  have "0 \<le> c / D * t" "0 \<le> s * (a / D)" "0 \<le> s * t"
    using s t cD aD by (simp_all only: mult_nonneg_nonneg)
  moreover have "0 < 1 / D"
    using Dpos by simp
  ultimately have "0 < (c / D + s) * (a / D + t) - - b / D * (- b / D)"
    unfolding det by linarith
  then show ?thesis
    by (simp only: D_def)
qed

lemma add_diagonal_branch_pd:
  fixes a b c :: real
  assumes a: "0 \<le> a" and c: "0 \<le> c" and D: "0 < a * c - b * b"
  shows "\<exists>c00 c01 c11. add_diagonal_branch a b c grid add_diagonal = Inr (c00, c01, c11)
           \<and> 0 \<le> c00 \<and> 0 \<le> c11 \<and> 0 \<le> c00 * c11 - c01 * c01"
proof -
  let ?D = "a * c - b * b"
  let ?p = "c / ?D + add_diagonal * dx grid 0 * (add_diagonal * dx grid 0)"
  let ?q = "a / ?D + add_diagonal * dx grid 1 * (add_diagonal * dx grid 1)"
  let ?det = "?p * ?q - - b / ?D * (- b / ?D)"
  have Dnz: "?D \<noteq> 0"
    using D by simp
  have det_pos: "0 < ?det"
    by (rule broadened_det_pos [OF a c D]) simp_all
  then have det_nz: "?det \<noteq> 0"
    by simp
  have p: "0 \<le> ?p" and q: "0 \<le> ?q"
    using a c D by (simp_all add: add_nonneg_nonneg)
  have run: "add_diagonal_branch a b c grid add_diagonal = Inr (?q / ?det, - (- b / ?D) / ?det, ?p / ?det)"
    by (simp only: add_diagonal_branch_def Let_def fdiv_ok [OF Dnz] fdiv_ok [OF det_nz] bind_Inr)
  have "?q / ?det * (?p / ?det) - - (- b / ?D) / ?det * (- (- b / ?D) / ?det) = ?det / (?det * ?det)"
    by (simp add: diff_divide_distrib mult.commute)
  also have "\<dots> = 1 / ?det"
    using det_nz by simp
  finally have inv: "0 \<le> ?q / ?det * (?p / ?det) - - (- b / ?D) / ?det * (- (- b / ?D) / ?det)"
    using det_pos by simp
  have c00: "0 \<le> ?q / ?det" and c11: "0 \<le> ?p / ?det"
    using p q det_pos by simp_all
  show ?thesis
    using run c00 c11 inv by blast
qed

lemma add_extra_smoothing_psd:
  fixes a b c :: real
  assumes "0 \<le> a" and "0 \<le> c" and "0 \<le> a * c - b * b"
    and "0 < add_diagonal \<longrightarrow> a * c - b * b \<noteq> 0"
  shows "\<exists>c00 c01 c11. add_extra_smoothing a b c grid add_diagonal = Inr (c00, c01, c11)
           \<and> 0 \<le> c00 \<and> 0 \<le> c11 \<and> 0 \<le> c00 * c11 - c01 * c01"
proof (cases "0 < add_diagonal")
  case True
  with assms have "0 < a * c - b * b"
    by simp
  from add_diagonal_branch_pd [OF assms(1,2) this] True show ?thesis
    by (simp add: add_extra_smoothing_def)
next
  case False
  with assms show ?thesis
    by (simp add: add_extra_smoothing_def)
qed

lemma sqrt_ten_to_18: "sqrt (10 ^ 18) = 10 ^ 9"
  by (rule real_sqrt_unique) simp_all

subsection \<open>Claim C4: centre, sign and half-widths of the kernel\<close>

text \<open>
  C4, as the specification states it, for every inverse covariance with finite entries,
  positive bin widths, \<open>n_sigma > 0\<close>, a minimum half-width \<open>\<ge> 0\<close> and a positive
  supersampling factor: the half-width along each axis is
  \<open>max(minimum, ceil(n_sigma \<cdot> \<sigma> / bin-width))\<close>. It fails for the positive semi-definite
  inverse covariance with all three entries \<open>1e13\<close>, on the grid of unit bins, with
  \<open>n_sigma = 5\<close>, minimum half-width 2, no extra smoothing and supersampling factor 5
  (the defaults of the function): the regularised determinant is \<open>1e-5\<close>, \<open>sigma[0]\<close> is
  \<open>1e9\<close>, and the half-width that the claim gives is \<open>5 \<cdot> 10\<^sup>9\<close>, above the largest \<open>int\<close>.
  The conversion \<open>(int)(ceil(...))\<close> of line 286 is undefined for it, and no kernel of the
  claimed half-width is built.
\<close>

theorem gaussian_filter_width_overflow_counterexample:
  "(0::real) \<le> 10 ^ 13 \<and> (0::real) \<le> 10 ^ 13 * 10 ^ 13 - 10 ^ 13 * 10 ^ 13
   \<and> 0 < dx unit_grid 0 \<and> 0 < dx unit_grid 1 \<and> (0::real) < 5 \<and> (0::int) \<le> 2 \<and> (0::int) < 5
   \<and> filter_sigma (10 ^ 13) (10 ^ 13) (10 ^ 13) = Inr (10 ^ 9, 10 ^ 9)
   \<and> max 2 \<lceil>5 * 10 ^ 9 / dx unit_grid 0\<rceil> = (5000000000::int)
   \<and> \<not> (5000000000::int) < 2 ^ 31
   \<and> gaussian_filter (10 ^ 13) (10 ^ 13) (10 ^ 13) unit_grid 5 2 (- 1) 5 = Inl IntRange"
proof -
  have sigma: "filter_sigma (10 ^ 13) (10 ^ 13) (10 ^ 13) = Inr (10 ^ 9, 10 ^ 9)"
    using sqrt_ten_to_18 by (simp add: filter_sigma_def fdiv_def fsqrt_def)
  have width: "filter_width 5 2 (10 ^ 9) (dx unit_grid 0) = Inl IntRange"
    by (simp add: filter_width_def fdiv_def int_checked_def unit_grid_def)
  have eff: "add_extra_smoothing (10 ^ 13) (10 ^ 13) (10 ^ 13) unit_grid (- 1)
               = Inr (10 ^ 13, 10 ^ 13, 10 ^ 13)"
    by (simp add: add_extra_smoothing_def)
  have run: "gaussian_filter (10 ^ 13) (10 ^ 13) (10 ^ 13) unit_grid 5 2 (- 1) 5 = Inl IntRange"
    unfolding gaussian_filter_def
    by (simp only: eff bind_Inr prod.case sigma width bind_Inl)
  show ?thesis
    using sigma run by (simp add: unit_grid_def)
qed

text \<open>
  C4, amended. Let the inverse covariance be positive semi-definite, and not singular
  where the extra smoothing is on (what the extra smoothing does to a singular matrix is
  left to claim C3); let the bin widths and the supersampling factor be positive,
  \<open>n_sigma \<ge> 0\<close> and the minimum half-width \<open>\<ge> 0\<close>. Let \<open>(c00, c01, c11)\<close> be the inverse
  covariance after the optional extra smoothing, \<open>det = c00 \<cdot> c11 - c01\<^sup>2 + 1e-5\<close> its
  regularised determinant, \<open>W0 = max(min_width, ceil(n_sigma \<cdot> sqrt(c11/det) / dx[0]))\<close> and
  \<open>W1 = max(min_width, ceil(n_sigma \<cdot> sqrt(c00/det) / dx[1]))\<close>, and let the sizes
  \<open>subsample \<cdot> (2 W + 1)\<close> of the supersampled image fit in an \<open>int\<close>. Then gaussian\_filter
  returns a kernel of \<open>2 W0 + 1\<close> rows and \<open>2 W1 + 1\<close> columns, whose value at the centre
  \<open>(W0, W1)\<close> is 1 and whose values are all non-negative; both half-widths are at least the
  minimum.
\<close>

theorem gaussian_filter_kernel:
  fixes inv_cov_00 inv_cov_01 inv_cov_11 c00 c01 c11 n_sigma :: real
    and min_width subsample W0 W1 :: int
  assumes psd: "0 \<le> inv_cov_00" "0 \<le> inv_cov_11"
      "0 \<le> inv_cov_00 * inv_cov_11 - inv_cov_01 * inv_cov_01"
    and regular: "0 < add_diagonal \<Longrightarrow> inv_cov_00 * inv_cov_11 - inv_cov_01 * inv_cov_01 \<noteq> 0"
    and dx0: "0 < dx grid 0" and dx1: "0 < dx grid 1"
    and n_sigma: "0 \<le> n_sigma" and min_width: "0 \<le> min_width" and subsample: "0 < subsample"
    and eff: "add_extra_smoothing inv_cov_00 inv_cov_01 inv_cov_11 grid add_diagonal
                = Inr (c00, c01, c11)"
    and W0: "W0 = max min_width
               \<lceil>n_sigma * sqrt (c11 / (c00 * c11 - c01 * c01 + 1 / 100000)) / dx grid 0\<rceil>"
    and W1: "W1 = max min_width
               \<lceil>n_sigma * sqrt (c00 / (c00 * c11 - c01 * c01 + 1 / 100000)) / dx grid 1\<rceil>"
    and fit0: "subsample * (2 * W0 + 1) < 2 ^ 31"
    and fit1: "subsample * (2 * W1 + 1) < 2 ^ 31"
  shows "\<exists>k. gaussian_filter inv_cov_00 inv_cov_01 inv_cov_11 grid n_sigma min_width add_diagonal
                subsample = Inr k
             \<and> rows k = nat (2 * W0 + 1) \<and> cols k = nat (2 * W1 + 1)
             \<and> at_rc k (nat W0) (nat W1) = 1
             \<and> (\<forall>i j. 0 \<le> at_rc k i j)
             \<and> min_width \<le> W0 \<and> min_width \<le> W1"
proof -
  have "0 < add_diagonal \<longrightarrow> inv_cov_00 * inv_cov_11 - inv_cov_01 * inv_cov_01 \<noteq> 0"
    using regular by blast
  from add_extra_smoothing_psd [OF psd this, where grid = grid] eff
  have c00: "0 \<le> c00" and c11: "0 \<le> c11" and d: "0 \<le> c00 * c11 - c01 * c01"
    by auto
  from d have det: "0 < c00 * c11 - c01 * c01 + 1 / 100000"
    by simp
  show ?thesis
    using eff det c00 c11 dx0 dx1 n_sigma min_width subsample W0 W1 fit0 fit1
    by (rule gaussian_filter_returns_kernel)
qed

theorem gaussian_filter_kernel_witness:
  "(\<exists>k. gaussian_filter 1 0 1 unit_grid 5 2 (- 1) 5 = Inr k
        \<and> rows k = 11 \<and> cols k = 11 \<and> at_rc k 5 5 = 1 \<and> (\<forall>i j. 0 \<le> at_rc k i j))
   \<and> (\<exists>k. gaussian_filter 50000 30000 20000 unit_grid 5 2 1 1 = Inr k
        \<and> rows k = 13 \<and> cols k = 13 \<and> at_rc k 6 6 = 1 \<and> (\<forall>i j. 0 \<le> at_rc k i j))"
proof -
  have eff: "add_extra_smoothing 1 0 1 unit_grid (- 1) = Inr (1, 0, 1)"
    by (simp add: add_extra_smoothing_def)
  have lo: "4 / 5 < sqrt (100000 / 100001)"
    by (rule real_less_rsqrt) (simp add: power2_eq_square)
  have hi: "sqrt (100000 / 100001) \<le> 1"
    by simp
  have c: "\<lceil>5 * sqrt (100000 / 100001)\<rceil> = 5"
    by (rule ceiling_unique) (use lo hi in simp_all)
  have W: "(5::int) = max 2 \<lceil>5 * sqrt (1 / (1 * 1 - 0 * 0 + 1 / 100000)) / dx unit_grid 0\<rceil>"
    "(5::int) = max 2 \<lceil>5 * sqrt (1 / (1 * 1 - 0 * 0 + 1 / 100000)) / dx unit_grid 1\<rceil>"
    by (simp_all add: unit_grid_def c)
  have psd: "(0::real) \<le> 1" "(0::real) \<le> 1 * 1 - 0 * 0"
    by simp_all
  have regular: "(0::real) < - 1 \<Longrightarrow> (1::real) * 1 - 0 * 0 \<noteq> 0"
    by simp
  have plain: "\<exists>k. gaussian_filter 1 0 1 unit_grid 5 2 (- 1) 5 = Inr k
        \<and> rows k = 11 \<and> cols k = 11 \<and> at_rc k 5 5 = 1 \<and> (\<forall>i j. 0 \<le> at_rc k i j)"
    using gaussian_filter_kernel [OF psd(1) psd(1) psd(2) regular _ _ _ _ _ eff W, where subsample = 5]
    by (simp add: unit_grid_def)
  let ?X = "33350000 / 33356667 :: real" and ?Y = "10000 / 33356667 :: real"
    and ?Z = "33340000 / 33356667 :: real"
  have eff': "add_extra_smoothing 50000 30000 20000 unit_grid 1 = Inr (?X, ?Y, ?Z)"
    by (simp add: add_extra_smoothing_def add_diagonal_branch_def fdiv_def Let_def unit_grid_def)
  have q0: "1 < ?Z / (?X * ?Z - ?Y * ?Y + 1 / 100000)" "?Z / (?X * ?Z - ?Y * ?Y + 1 / 100000) \<le> (6 / 5)\<^sup>2"
    and q1: "1 < ?X / (?X * ?Z - ?Y * ?Y + 1 / 100000)" "?X / (?X * ?Z - ?Y * ?Y + 1 / 100000) \<le> (6 / 5)\<^sup>2"
    by (simp_all add: power2_eq_square)
  have s0: "1 < sqrt (?Z / (?X * ?Z - ?Y * ?Y + 1 / 100000))"
      "sqrt (?Z / (?X * ?Z - ?Y * ?Y + 1 / 100000)) \<le> 6 / 5"
    using q0(1) real_le_lsqrt [OF _ q0(2)] by simp_all
  have s1: "1 < sqrt (?X / (?X * ?Z - ?Y * ?Y + 1 / 100000))"
      "sqrt (?X / (?X * ?Z - ?Y * ?Y + 1 / 100000)) \<le> 6 / 5"
    using q1(1) real_le_lsqrt [OF _ q1(2)] by simp_all
  have c0: "\<lceil>5 * sqrt (?Z / (?X * ?Z - ?Y * ?Y + 1 / 100000))\<rceil> = 6"
    by (rule ceiling_unique) (use s0 in simp_all)
  have c1: "\<lceil>5 * sqrt (?X / (?X * ?Z - ?Y * ?Y + 1 / 100000))\<rceil> = 6"
    by (rule ceiling_unique) (use s1 in simp_all)
  have W': "(6::int) = max 2 \<lceil>5 * sqrt (?Z / (?X * ?Z - ?Y * ?Y + 1 / 100000)) / dx unit_grid 0\<rceil>"
    "(6::int) = max 2 \<lceil>5 * sqrt (?X / (?X * ?Z - ?Y * ?Y + 1 / 100000)) / dx unit_grid 1\<rceil>"
    by (simp_all only: c0 c1 unit_grid_def TRect.simps div_by_1)
  have psd': "(0::real) \<le> 50000" "(0::real) \<le> 20000" "(0::real) \<le> 50000 * 20000 - 30000 * 30000"
    by simp_all
  have regular': "(0::real) < 1 \<Longrightarrow> (50000::real) * 20000 - 30000 * 30000 \<noteq> 0"
    by simp
  have smoothed: "\<exists>k. gaussian_filter 50000 30000 20000 unit_grid 5 2 1 1 = Inr k
        \<and> rows k = 13 \<and> cols k = 13 \<and> at_rc k 6 6 = 1 \<and> (\<forall>i j. 0 \<le> at_rc k i j)"
    using gaussian_filter_kernel [OF psd' regular' _ _ _ _ _ eff' W', where subsample = 1]
    by (simp add: unit_grid_def)
  show ?thesis
    using plain smoothed by (rule conjI)
qed

subsection \<open>Claim C3: the determinants of gaussian\_filter\<close>

text \<open>
  C3. The claim is that every determinant by which gaussian\_filter divides has the
  regularisation \<open>1e-5\<close> added first, also in the branch of the extra smoothing. The code
  adds it at line 275 only. In the branch \<open>add_diagonal > 0\<close> the determinants of
  lines 259 and 267 are used as computed: for the singular inverse covariance \<open>(1, 1, 1)\<close>
  the first one is 0, the branch divides by it, and the function returns no finite
  kernel; without the extra smoothing the same matrix passes line 275, where the
  determinant is \<open>0 + 1e-5\<close>.
\<close>

theorem add_diagonal_branch_divides_by_zero_determinant:
  "add_diagonal_branch 1 1 1 unit_grid 1 = Inl NonFinite
   \<and> gaussian_filter 1 1 1 unit_grid 5 2 1 5 = Inl NonFinite
   \<and> filter_sigma 1 1 1 = Inr (sqrt 100000, sqrt 100000)"
  by (simp add: gaussian_filter_def add_extra_smoothing_def add_diagonal_branch_def
      filter_sigma_def fdiv_def fsqrt_def Let_def)

subsection \<open>The reductions and the stages of integrate\_ML\_solution\<close>

lemma fold_keep_largest:
  fixes x :: "'a::linorder"
  shows "fold (\<lambda>y largest. if largest < y then y else largest) xs x = Max (set (x # xs))"
proof -
  have eq: "(\<lambda>y largest. if largest < y then y else largest) = (max :: 'a \<Rightarrow> 'a \<Rightarrow> 'a)"
    by (intro ext) (auto simp: max_def)
  show ?thesis
    by (simp only: Max.set_eq_fold eq)
qed

lemma fold_keep_smallest:
  fixes x :: "'a::linorder"
  shows "fold (\<lambda>y smallest. if y < smallest then y else smallest) xs x = Min (set (x # xs))"
proof -
  have eq: "(\<lambda>y smallest. if y < smallest then y else smallest) = (min :: 'a \<Rightarrow> 'a \<Rightarrow> 'a)"
    by (intro ext) (auto simp: min_def)
  show ?thesis
    by (simp only: Min.set_eq_fold eq)
qed

lemma max_element_Max: "xs \<noteq> [] \<Longrightarrow> max_element xs = Inr (Max (set xs))"
  by (cases xs) (simp_all add: fold_keep_largest)

lemma min_element_Min: "xs \<noteq> [] \<Longrightarrow> min_element xs = Inr (Min (set xs))"
  by (cases xs) (simp_all add: fold_keep_smallest)

lemma for_loop_skip: "(\<And>x s. x \<in> set xs \<Longrightarrow> body x s = Inr s) \<Longrightarrow> for_loop xs body s = Inr s"
  by (induction xs) simp_all

lemma set_grid_indices: "set (grid_indices N_Mr N_FeH) = {..<N_Mr} \<times> {..<N_FeH}"
  by (auto simp: grid_indices_def)

lemma sweep_no_sed:
  assumes "\<forall>Mr_idx<get_N_Mr stellar_model. \<forall>FeH_idx<get_N_FeH stellar_model.
             get_sed stellar_model Mr_idx FeH_idx = None"
  shows "sweep NBANDS get_A stellar_model los_model mags_obs use_priors use_gaia RV inv_cov = Inr []"
  unfolding sweep_def
  by (rule for_loop_skip) (use assms in \<open>auto simp: set_grid_indices sweep_body_def split: prod.splits\<close>)

text \<open>With a covariance, a non-empty list of recorded cells and an image for the star,
  what remains of the function are the deposits, the kernel and the returned quotient; the
  two reductions are the minimum and the maximum over the recorded cells.\<close>

lemma integrate_ML_solution_stages:
  assumes cov: "star_covariance NBANDS get_A mags_obs RV = Inr (c00, c01, c11)"
    and sw: "sweep NBANDS get_A stellar_model los_model mags_obs use_priors use_gaia RV (c00, c01, c11)
               = Inr cells"
    and ne: "cells \<noteq> []"
    and idx: "img_idx < length (img img_stack)"
  shows "integrate_ML_solution NBANDS border stellar_model los_model mags_obs get_A img_stack img_idx
           use_priors use_gaia RV verbosity =
         bind (deposit (rect img_stack) (Min (chi2_ML ` set cells)) (Max (prior_ML ` set cells)) cells
                 (zeros (N_bins (rect img_stack) 0) (N_bins (rect img_stack) 1))) (\<lambda>M.
         bind (gaussian_filter c11 c01 c00 (rect img_stack) 5 2 1 verbosity) (\<lambda>cov_img.
           Inr (img_stack\<lparr>img := (img img_stack)[img_idx := filter2D border M cov_img]\<rparr>,
                if n_passbands NBANDS mags_obs = 0 then NotFinite
                else Finite (Min (chi2_ML ` set cells) / real (n_passbands NBANDS mags_obs)))))"
proof -
  have mx: "max_element (map prior_ML cells) = Inr (Max (prior_ML ` set cells))"
    using max_element_Max [of "map prior_ML cells"] ne by simp
  have mn: "min_element (map chi2_ML cells) = Inr (Min (chi2_ML ` set cells))"
    using min_element_Min [of "map chi2_ML cells"] ne by simp
  show ?thesis
    unfolding integrate_ML_solution_def
    using idx by (simp add: cov sw mx mn initialize_to_zero_def Let_def)
qed

lemma deposit_body_out_of_bounds:
  "get_interpolant grid (E_ML cell) (mu_ML cell) = None
     \<Longrightarrow> deposit_body grid chi2_min prior_max cell M = Inr M"
  by (simp add: deposit_body_def)

lemma deposit_all_out_of_bounds:
  assumes "\<forall>cell\<in>set cells. get_interpolant grid (E_ML cell) (mu_ML cell) = None"
  shows "deposit grid chi2_min prior_max cells M = Inr M"
  unfolding deposit_def
  by (rule for_loop_skip) (use assms in \<open>simp add: deposit_body_out_of_bounds\<close>)



lemma mat_add_simps [simp]:
  "rows (mat_add M i j v) = rows M"
  "cols (mat_add M i j v) = cols M"
  "at_rc (mat_add M i j v) r c = at_rc M r c + (if r = i \<and> c = j then v else 0)"
  by (simp_all add: mat_add_def)










subsection \<open>Concrete runs\<close>

lemma n_passbands_Suc:
  "n_passbands (Suc n) mags_obs =
     (if obs_err mags_obs n > 1000000000 then n_passbands n mags_obs else n_passbands n mags_obs + 1)"
  by (simp add: n_passbands_def)

lemma n_passbands_zero_iff:
  "n_passbands NBANDS mags_obs = 0 \<longleftrightarrow> (\<forall>i<NBANDS. obs_err mags_obs i > 1000000000)"
proof (induction NBANDS)
  case 0
  show ?case by (simp add: n_passbands_def)
next
  case (Suc n)
  then show ?case
    by (auto simp: n_passbands_Suc less_Suc_eq)
qed

lemma sweep_one_sed:
  assumes fit: "star_max_likelihood NBANDS get_A noiseless_sed mags_obs c00 c01 c11 RV = Inr (10, 2, 0)"
  shows "sweep NBANDS get_A one_sed_model flat_los mags_obs use_priors False RV (c00, c01, c11)
           = Inr [fit_cell]"
  by (simp add: sweep_def grid_indices_def one_sed_model_def sweep_body_def fit cell_prior_def
      fit_cell_def flat_los_def)

lemma noiseless_star_cov:
  "star_covariance 2 linear_A noiseless_star 3.1 = Inr (20000, 30000, 50000)"
proof -
  have nz: "\<forall>i<2. obs_err noiseless_star i \<noteq> 0"
    by (simp add: noiseless_star_def)
  show ?thesis
    using star_covariance_sums [OF nz, of linear_A "3.1"]
    by (simp add: numeral_2_eq_2 noiseless_star_def linear_A_def)
qed

lemma noiseless_star_sweep:
  "sweep 2 linear_A one_sed_model flat_los noiseless_star use_priors False 3.1 (20000, 30000, 50000)
     = Inr [fit_cell]"
proof -
  have gen: "\<forall>i<2. obs_m noiseless_star i = noiseless_sed i + 10 + 2 * linear_A 3.1 i"
    by (simp add: noiseless_star_def noiseless_sed_def linear_A_def less_2_cases_iff)
  have pos: "\<forall>i<2. 0 < obs_err noiseless_star i"
    by (simp add: noiseless_star_def)
  have nondeg: "(20000::real) * 50000 - 30000 * 30000 \<noteq> 0"
    by simp
  show ?thesis
    by (rule sweep_one_sed) (rule noiseless_fit [OF gen pos noiseless_star_cov nondeg])
qed

lemma faint_star_cov:
  "star_covariance 2 linear_A faint_star 3.1 = Inr (2 / 10 ^ 20, 3 / 10 ^ 20, 5 / 10 ^ 20)"
proof -
  have nz: "\<forall>i<2. obs_err faint_star i \<noteq> 0"
    by (simp add: faint_star_def)
  show ?thesis
    using star_covariance_sums [OF nz, of linear_A "3.1"]
    by (simp add: numeral_2_eq_2 faint_star_def linear_A_def)
qed

lemma faint_star_sweep:
  "sweep 2 linear_A one_sed_model flat_los faint_star use_priors False 3.1
     (2 / 10 ^ 20, 3 / 10 ^ 20, 5 / 10 ^ 20) = Inr [fit_cell]"
proof -
  have gen: "\<forall>i<2. obs_m faint_star i = noiseless_sed i + 10 + 2 * linear_A 3.1 i"
    by (simp add: faint_star_def noiseless_sed_def linear_A_def less_2_cases_iff)
  have pos: "\<forall>i<2. 0 < obs_err faint_star i"
    by (simp add: faint_star_def)
  have nondeg: "(2 / 10 ^ 20 :: real) * (5 / 10 ^ 20) - 3 / 10 ^ 20 * (3 / 10 ^ 20) \<noteq> 0"
    by simp
  show ?thesis
    by (rule sweep_one_sed) (rule noiseless_fit [OF gen pos faint_star_cov nondeg])
qed

text \<open>A kernel exists where the variances along both axes are at most 4 and the sizes
  are moderate.\<close>

lemma gaussian_filter_returns_small:
  fixes c00 c01 c11 n_sigma :: real and min_width subsample :: int
  assumes eff: "add_extra_smoothing inv_cov_00 inv_cov_01 inv_cov_11 grid add_diagonal
                  = Inr (c00, c01, c11)"
    and det: "0 < c00 * c11 - c01 * c01 + 1 / 100000"
    and c00: "0 \<le> c00" and c11: "0 \<le> c11"
    and v0: "c11 / (c00 * c11 - c01 * c01 + 1 / 100000) \<le> 4"
    and v1: "c00 / (c00 * c11 - c01 * c01 + 1 / 100000) \<le> 4"
    and dx0: "0 < dx grid 0" and dx1: "0 < dx grid 1"
    and n0: "n_sigma * 2 / dx grid 0 \<le> 1000" and n1: "n_sigma * 2 / dx grid 1 \<le> 1000"
    and n_sigma: "0 \<le> n_sigma" and min_width: "0 \<le> min_width" "min_width \<le> 1000"
    and subsample: "0 < subsample" "subsample \<le> 1000"
  shows "\<exists>k. gaussian_filter inv_cov_00 inv_cov_01 inv_cov_11 grid n_sigma min_width add_diagonal
                subsample = Inr k"
proof -
  let ?det = "c00 * c11 - c01 * c01 + 1 / 100000"
  define W0 where "W0 = max min_width \<lceil>n_sigma * sqrt (c11 / ?det) / dx grid 0\<rceil>"
  define W1 where "W1 = max min_width \<lceil>n_sigma * sqrt (c00 / ?det) / dx grid 1\<rceil>"
  have s0: "sqrt (c11 / ?det) \<le> 2" and s1: "sqrt (c00 / ?det) \<le> 2"
    using real_sqrt_le_mono [OF v0] real_sqrt_le_mono [OF v1] by simp_all
  have "n_sigma * sqrt (c11 / ?det) / dx grid 0 \<le> n_sigma * 2 / dx grid 0"
    using s0 n_sigma dx0 by (intro divide_right_mono mult_left_mono) simp_all
  then have "n_sigma * sqrt (c11 / ?det) / dx grid 0 \<le> 1000"
    using n0 by simp
  then have w0: "W0 \<le> 1000"
    using min_width(2) by (simp add: W0_def ceiling_le_iff)
  have "n_sigma * sqrt (c00 / ?det) / dx grid 1 \<le> n_sigma * 2 / dx grid 1"
    using s1 n_sigma dx1 by (intro divide_right_mono mult_left_mono) simp_all
  then have "n_sigma * sqrt (c00 / ?det) / dx grid 1 \<le> 1000"
    using n1 by simp
  then have w1: "W1 \<le> 1000"
    using min_width(2) by (simp add: W1_def ceiling_le_iff)
  have W0_nn: "0 \<le> W0" and W1_nn: "0 \<le> W1"
    using min_width(1) by (simp_all add: W0_def W1_def)
  have "subsample * (2 * W0 + 1) \<le> 1000 * 2001"
    using subsample w0 W0_nn by (intro mult_mono) simp_all
  then have fit0: "subsample * (2 * W0 + 1) < 2 ^ 31"
    by simp
  have "subsample * (2 * W1 + 1) \<le> 1000 * 2001"
    using subsample w1 W1_nn by (intro mult_mono) simp_all
  then have fit1: "subsample * (2 * W1 + 1) < 2 ^ 31"
    by simp
  show ?thesis
    using gaussian_filter_returns_kernel [OF eff det c00 c11 dx0 dx1 n_sigma min_width(1)
        subsample(1) W0_def W1_def fit0 fit1]
    by blast
qed

lemma faint_star_kernel: "\<exists>k. gaussian_filter (5 / 10 ^ 20) (3 / 10 ^ 20) (2 / 10 ^ 20) unit_grid 5 2 1 1 = Inr k"
proof -
  have eff: "add_extra_smoothing (5 / 10 ^ 20) (3 / 10 ^ 20) (2 / 10 ^ 20) unit_grid 1
               = Inr ((5 * 10 ^ 20 + 1) / (10 ^ 40 + 7 * 10 ^ 20 + 1),
                      3 * 10 ^ 20 / (10 ^ 40 + 7 * 10 ^ 20 + 1),
                      (2 * 10 ^ 20 + 1) / (10 ^ 40 + 7 * 10 ^ 20 + 1))"
    by (simp add: add_extra_smoothing_def add_diagonal_branch_def fdiv_def Let_def unit_grid_def)
  show ?thesis
    by (rule gaussian_filter_returns_small [OF eff]) (simp_all add: unit_grid_def)
qed

lemma noiseless_star_kernel: "\<exists>k. gaussian_filter 50000 30000 20000 unit_grid 5 2 1 1 = Inr k"
proof -
  have eff: "add_extra_smoothing 50000 30000 20000 unit_grid 1
               = Inr (33350000 / 33356667, 10000 / 33356667, 33340000 / 33356667)"
    by (simp add: add_extra_smoothing_def add_diagonal_branch_def fdiv_def Let_def unit_grid_def)
  show ?thesis
    by (rule gaussian_filter_returns_small [OF eff]) (simp_all add: unit_grid_def)
qed

text \<open>The star without non-missing bands, run on the grid where nothing is in bounds.\<close>

lemma faint_star_run:
  "\<exists>st. integrate_ML_solution 2 border_reflect_101 one_sed_model flat_los faint_star linear_A
          unit_stack 0 use_priors False 3.1 1 = Inr (st, NotFinite)"
proof -
  obtain k where k: "gaussian_filter (5 / 10 ^ 20) (3 / 10 ^ 20) (2 / 10 ^ 20) unit_grid 5 2 1 1 = Inr k"
    using faint_star_kernel by blast
  have idx: "0 < length (img unit_stack)"
    by (simp add: unit_stack_def)
  have rect: "rect unit_stack = unit_grid"
    by (simp add: unit_stack_def)
  have dep: "deposit unit_grid cmin pmax [fit_cell] M = Inr M" for cmin pmax M
    by (rule deposit_all_out_of_bounds) (simp add: unit_grid_def)
  have n: "n_passbands 2 faint_star = 0"
    by (simp add: n_passbands_zero_iff faint_star_def)
  have ne: "[fit_cell] \<noteq> []"
    by simp
  have "integrate_ML_solution 2 border_reflect_101 one_sed_model flat_los faint_star linear_A
          unit_stack 0 use_priors False 3.1 1 =
        Inr (unit_stack\<lparr>img := (img unit_stack)
               [0 := filter2D border_reflect_101 (zeros (N_bins unit_grid 0) (N_bins unit_grid 1)) k]\<rparr>,
             NotFinite)"
    by (simp only: integrate_ML_solution_stages [OF faint_star_cov faint_star_sweep ne idx]
        rect dep k bind_Inr n refl if_True)
  then show ?thesis
    by blast
qed

text \<open>The star with two measured bands, run on the same grid.\<close>

lemma n_passbands_noiseless_star: "n_passbands 2 noiseless_star = 2"
  by (simp add: numeral_2_eq_2 n_passbands_Suc noiseless_star_def) (simp add: n_passbands_def)

lemma noiseless_star_run:
  "\<exists>st. integrate_ML_solution 2 border_reflect_101 one_sed_model flat_los noiseless_star linear_A
          unit_stack 0 use_priors False 3.1 1 = Inr (st, Finite 0) \<and> rect st = unit_grid"
proof -
  obtain k where k: "gaussian_filter 50000 30000 20000 unit_grid 5 2 1 1 = Inr k"
    using noiseless_star_kernel by blast
  have idx: "0 < length (img unit_stack)"
    by (simp add: unit_stack_def)
  have rect: "rect unit_stack = unit_grid"
    by (simp add: unit_stack_def)
  have dep: "deposit unit_grid cmin pmax [fit_cell] M = Inr M" for cmin pmax M
    by (rule deposit_all_out_of_bounds) (simp add: unit_grid_def)
  have n: "(n_passbands 2 noiseless_star = 0) = False"
    by (simp add: n_passbands_noiseless_star)
  have ne: "[fit_cell] \<noteq> []"
    by simp
  have "integrate_ML_solution 2 border_reflect_101 one_sed_model flat_los noiseless_star linear_A
          unit_stack 0 use_priors False 3.1 1 =
        Inr (unit_stack\<lparr>img := (img unit_stack)
               [0 := filter2D border_reflect_101 (zeros (N_bins unit_grid 0) (N_bins unit_grid 1)) k]\<rparr>,
             Finite (Min (chi2_ML ` set [fit_cell]) / real (n_passbands 2 noiseless_star)))"
    by (simp only: integrate_ML_solution_stages [OF noiseless_star_cov noiseless_star_sweep ne idx]
        rect dep k bind_Inr n if_False)
  then show ?thesis
    by (simp add: fit_cell_def rect)
qed

subsection \<open>Claim C5: two passes, and the deposited weight\<close>



subsection \<open>Claim C10: a library without any SED\<close>

text \<open>
  C10. integrate\_ML\_solution has a result only if some cell of the grid yields a SED.
  If every lookup fails, no cell is recorded, and the function has no result: where the
  covariance is computed (no error is zero), what it reaches is the dereference of the end
  iterator that \<open>std::max_element\<close> returns for the empty vector \<open>prior_ML\<close>.
\<close>

theorem integrate_ML_solution_needs_a_sed:
  assumes no_sed: "\<forall>Mr_idx<get_N_Mr stellar_model. \<forall>FeH_idx<get_N_FeH stellar_model.
                     get_sed stellar_model Mr_idx FeH_idx = None"
  shows "(\<forall>r. integrate_ML_solution NBANDS border stellar_model los_model mags_obs get_A img_stack
                 img_idx use_priors use_gaia RV verbosity \<noteq> Inr r)
       \<and> ((\<forall>i<NBANDS. obs_err mags_obs i \<noteq> 0) \<longrightarrow>
            integrate_ML_solution NBANDS border stellar_model los_model mags_obs get_A img_stack
              img_idx use_priors use_gaia RV verbosity = Inl EmptyRange)"
proof -
  have run: "integrate_ML_solution NBANDS border stellar_model los_model mags_obs get_A img_stack
               img_idx use_priors use_gaia RV verbosity =
             (case star_covariance NBANDS get_A mags_obs RV of
                Inl e \<Rightarrow> Inl e | Inr c \<Rightarrow> Inl EmptyRange)"
    unfolding integrate_ML_solution_def
    by (simp add: sweep_no_sed [OF no_sed] Let_def split: sum.splits prod.splits)
  have "integrate_ML_solution NBANDS border stellar_model los_model mags_obs get_A img_stack
          img_idx use_priors use_gaia RV verbosity \<noteq> Inr r" for r
    unfolding run by (simp split: sum.splits)
  moreover have "integrate_ML_solution NBANDS border stellar_model los_model mags_obs get_A img_stack
          img_idx use_priors use_gaia RV verbosity = Inl EmptyRange"
    if "\<forall>i<NBANDS. obs_err mags_obs i \<noteq> 0"
    unfolding run by (simp add: star_covariance_sums [OF that])
  ultimately show ?thesis
    by blast
qed

theorem integrate_ML_solution_needs_a_sed_witness:
  "integrate_ML_solution 2 border_reflect_101 empty_model flat_los noiseless_star linear_A
     unit_stack 0 False False 3.1 1 = Inl EmptyRange"
proof -
  have no_sed: "\<forall>Mr_idx<get_N_Mr empty_model. \<forall>FeH_idx<get_N_FeH empty_model.
                  get_sed empty_model Mr_idx FeH_idx = None"
    by (simp add: empty_model_def)
  have nz: "\<forall>i<2. obs_err noiseless_star i \<noteq> 0"
    by (simp add: noiseless_star_def)
  show ?thesis
    using integrate_ML_solution_needs_a_sed [OF no_sed, of 2 border_reflect_101 flat_los
        noiseless_star linear_A unit_stack 0 False False "3.1" 1] nz
    by blast
qed

subsection \<open>Claim C6: a star without non-missing bands\<close>

text \<open>
  C6, as the specification states it: for a star all of whose bands are missing the
  evaluation stops at entry with an error condition, and no NaN reaches the returned
  chi-square per passband. It fails for the star of two bands with the errors \<open>1e10\<close>:
  the number of passbands is 0, and integrate\_ML\_solution returns, as a value, the
  quotient \<open>chi2_min / 0\<close>, which is not finite.
\<close>

theorem zero_band_star_counterexample:
  "n_passbands 2 faint_star = 0
   \<and> map_sum id snd (integrate_ML_solution 2 border_reflect_101 one_sed_model flat_los faint_star
        linear_A unit_stack 0 True False 3.1 1) = Inr NotFinite"
proof -
  obtain st where "integrate_ML_solution 2 border_reflect_101 one_sed_model flat_los faint_star
      linear_A unit_stack 0 True False 3.1 1 = Inr (st, NotFinite)"
    using faint_star_run [of True] by blast
  then show ?thesis
    by (simp add: n_passbands_zero_iff faint_star_def)
qed

text \<open>
  C6, amended. integrate\_ML\_solution makes no test at entry. For a star whose errors all
  exceed \<open>1e9\<close> it does all of its work: where the covariance is computed, the sweep has
  recorded at least one cell, the deposits stay inside the image and the kernel is
  computed, it stores the smoothed surface of the star and returns the quotient
  \<open>chi2_min / 0\<close>, a value that is not finite; no error condition is raised.
\<close>

theorem zero_band_star_returns_not_finite:
  assumes cov: "star_covariance NBANDS get_A mags_obs RV = Inr (c00, c01, c11)"
    and sw: "sweep NBANDS get_A stellar_model los_model mags_obs use_priors use_gaia RV (c00, c01, c11)
               = Inr cells"
    and ne: "cells \<noteq> []"
    and idx: "img_idx < length (img img_stack)"
    and dep: "deposit (rect img_stack) (Min (chi2_ML ` set cells)) (Max (prior_ML ` set cells)) cells
                (zeros (N_bins (rect img_stack) 0) (N_bins (rect img_stack) 1)) = Inr M"
    and kern: "gaussian_filter c11 c01 c00 (rect img_stack) 5 2 1 verbosity = Inr cov_img"
    and zero: "\<forall>i<NBANDS. obs_err mags_obs i > 10 ^ 9"
  shows "integrate_ML_solution NBANDS border stellar_model los_model mags_obs get_A img_stack img_idx
           use_priors use_gaia RV verbosity =
         Inr (img_stack\<lparr>img := (img img_stack)[img_idx := filter2D border M cov_img]\<rparr>, NotFinite)"
proof -
  have n: "n_passbands NBANDS mags_obs = 0"
    using zero by (simp add: n_passbands_zero_iff)
  show ?thesis
    by (simp only: integrate_ML_solution_stages [OF cov sw ne idx] dep kern bind_Inr n refl if_True)
qed

theorem zero_band_star_returns_not_finite_witness:
  "\<exists>st. integrate_ML_solution 2 border_reflect_101 one_sed_model flat_los faint_star linear_A
          unit_stack 0 False False 3.1 1 = Inr (st, NotFinite)"
proof -
  obtain k where k: "gaussian_filter (5 / 10 ^ 20) (3 / 10 ^ 20) (2 / 10 ^ 20) (rect unit_stack) 5 2 1 1
                       = Inr k"
    using faint_star_kernel by (auto simp: unit_stack_def)
  have idx: "0 < length (img unit_stack)"
    by (simp add: unit_stack_def)
  have dep: "deposit (rect unit_stack) (Min (chi2_ML ` set [fit_cell])) (Max (prior_ML ` set [fit_cell]))
               [fit_cell] (zeros (N_bins (rect unit_stack) 0) (N_bins (rect unit_stack) 1))
             = Inr (zeros (N_bins (rect unit_stack) 0) (N_bins (rect unit_stack) 1))"
    by (rule deposit_all_out_of_bounds) (simp add: unit_stack_def unit_grid_def)
  have ne: "[fit_cell] \<noteq> []"
    by simp
  have zero: "\<forall>i<2. obs_err faint_star i > 10 ^ 9"
    by (simp add: faint_star_def)
  show ?thesis
    using zero_band_star_returns_not_finite [OF faint_star_cov faint_star_sweep [of False] ne idx
        dep k zero, of border_reflect_101]
    by blast
qed

subsection \<open>Claim C7: cells outside the grid\<close>




subsection \<open>Claim C9: the smoothing pass along the extinction axis\<close>

lemma scale_sigma_pix_fold:
  assumes "n \<le> length sp"
  shows "length (fold (\<lambda>i sp. sp[i := sp ! i * real i]) [0..<n] sp) = length sp
       \<and> (\<forall>i<length sp. fold (\<lambda>i sp. sp[i := sp ! i * real i]) [0..<n] sp ! i
                           = (if i < n then sp ! i * real i else sp ! i))"
  using assms
proof (induction n)
  case 0
  show ?case by simp
next
  case (Suc n)
  then have IH: "length (fold (\<lambda>i sp. sp[i := sp ! i * real i]) [0..<n] sp) = length sp"
      "\<forall>i<length sp. fold (\<lambda>i sp. sp[i := sp ! i * real i]) [0..<n] sp ! i
                           = (if i < n then sp ! i * real i else sp ! i)"
    and n: "n < length sp"
    by simp_all
  show ?case
    using IH n by (auto simp: nth_list_update less_Suc_eq)
qed

lemma scale_sigma_pix_nth:
  "length (scale_sigma_pix sigma_pix) = length sigma_pix
   \<and> (\<forall>i<length sigma_pix. scale_sigma_pix sigma_pix ! i = sigma_pix ! i * real i)"
  unfolding scale_sigma_pix_def using scale_sigma_pix_fold [of "length sigma_pix" sigma_pix] by simp

lemma stars_body_appends:
  "stars_body NBANDS border stellar_model los_model stellar_data get_A use_priors use_gaia RV verbosity
     i (st, acc) = Inr r \<Longrightarrow> \<exists>st1 x. r = (st1, acc @ [x])"
  by (auto simp: stars_body_def bind_def split: sum.splits prod.splits)

lemma stars_loop_length:
  "for_loop is (stars_body NBANDS border stellar_model los_model stellar_data get_A use_priors use_gaia
                  RV verbosity) (st, acc) = Inr (st', acc')
     \<Longrightarrow> length acc' = length acc + length is"
proof (induction "is" arbitrary: st acc)
  case Nil
  then show ?case by simp
next
  case (Cons i "is")
  let ?body = "stars_body NBANDS border stellar_model los_model stellar_data get_A use_priors use_gaia
                 RV verbosity"
  from Cons.prems obtain r where
    step: "?body i (st, acc) = Inr r" and rest: "for_loop is ?body r = Inr (st', acc')"
    by (cases "?body i (st, acc)") simp_all
  from stars_body_appends [OF step] obtain st1 x where r: "r = (st1, acc @ [x])"
    by blast
  show ?case
    using Cons.IH [OF rest [unfolded r]] by simp
qed

text \<open>
  C9. Where \<open>pct_smoothing_max > 0\<close> and the loop over the stars has produced the surface
  of every star (the stack \<open>stack1\<close>, and one chi-square for each star), grid\_eval\_stars
  crops the stack and then calls \<open>smooth\<close> once, on the whole stack, with the widths that
  \<open>calc_pct_smoothing\<close> computes from \<open>nside\<close> and the extinction axis of the grid, each
  multiplied by its bin index: the width at index \<open>i\<close> is \<open>i\<close> times the base width, so it
  is 0 at bin 0.
\<close>

theorem extinction_smoothing_pass:
  assumes on: "0 < get_pct_smoothing_max EBV_smoothing"
    and stars: "for_loop [0..<length (star stellar_data)]
                  (stars_body NBANDS border stellar_model los_model stellar_data get_A
                     use_priors use_gaia RV verbosity)
                  (set_rect methods img_stack
                     (TRect_new methods (- 0.2, 3.75) (7.2, 19.25) (740, 124)), [])
                = Inr (stack1, chi2)"
    and cropped: "stack2 = crop methods stack1 0 7 4 19"
    and base: "sigma_pix = calc_pct_smoothing EBV_smoothing (nside stellar_data)
                 (min_rect (rect stack2) 0) (max_rect (rect stack2) 0) (N_bins (rect stack2) 0)"
  shows "grid_eval_stars NBANDS border methods los_model get_A stellar_model stellar_data
           EBV_smoothing img_stack use_priors use_gaia RV verbosity
         = Inr (smooth methods stack2 (scale_sigma_pix sigma_pix), chi2)
       \<and> length chi2 = length (star stellar_data)
       \<and> length (scale_sigma_pix sigma_pix) = length sigma_pix
       \<and> (\<forall>i<length sigma_pix. scale_sigma_pix sigma_pix ! i = sigma_pix ! i * real i)
       \<and> (sigma_pix \<noteq> [] \<longrightarrow> scale_sigma_pix sigma_pix ! 0 = 0)"
proof -
  have run: "grid_eval_stars NBANDS border methods los_model get_A stellar_model stellar_data
               EBV_smoothing img_stack use_priors use_gaia RV verbosity
             = Inr (smooth methods stack2 (scale_sigma_pix sigma_pix), chi2)"
    unfolding grid_eval_stars_def Let_def stars
    using on by (simp add: cropped base)
  have len: "length chi2 = length (star stellar_data)"
    using stars_loop_length [OF stars] by simp
  have zero: "scale_sigma_pix sigma_pix ! 0 = 0" if "sigma_pix \<noteq> []"
    using scale_sigma_pix_nth [of sigma_pix] that by simp
  show ?thesis
    using run len scale_sigma_pix_nth [of sigma_pix] zero by blast
qed

theorem extinction_smoothing_pass_witness:
  "\<exists>st. grid_eval_stars 2 border_reflect_101 plain_methods flat_los linear_A one_sed_model
          one_star_pixel unit_smoothing unit_stack False False 3.1 1
        = Inr (st, [Finite 0])
      \<and> scale_sigma_pix (replicate 5 1) ! 3 = 3"
proof -
  obtain st where st: "integrate_ML_solution 2 border_reflect_101 one_sed_model flat_los
      noiseless_star linear_A unit_stack 0 False False 3.1 1 = Inr (st, Finite 0)"
    and rect: "rect st = unit_grid"
    using noiseless_star_run [of False] by blast
  have start: "set_rect plain_methods unit_stack
                 (TRect_new plain_methods (- 0.2, 3.75) (7.2, 19.25) (740, 124)) = unit_stack"
    by (simp add: plain_methods_def unit_stack_def)
  have on: "0 < get_pct_smoothing_max unit_smoothing"
    by (simp add: unit_smoothing_def)
  have stars: "for_loop [0..<length (star one_star_pixel)]
                 (stars_body 2 border_reflect_101 one_sed_model flat_los one_star_pixel linear_A
                    False False 3.1 1)
                 (set_rect plain_methods unit_stack
                    (TRect_new plain_methods (- 0.2, 3.75) (7.2, 19.25) (740, 124)), [])
               = Inr (st, [Finite 0])"
    unfolding start by (simp add: one_star_pixel_def stars_body_def st)
  have cropped: "st = crop plain_methods st 0 7 4 19"
    by (simp add: plain_methods_def)
  have base: "replicate 5 1 = calc_pct_smoothing unit_smoothing (nside one_star_pixel)
                (min_rect (rect st) 0) (max_rect (rect st) 0) (N_bins (rect st) 0)"
    by (simp add: unit_smoothing_def rect unit_grid_def)
  show ?thesis
    using extinction_smoothing_pass [OF on stars cropped base]
    by (auto simp: plain_methods_def)
qed

end
